theory Spec2Isabelle
  imports Main
begin

section \<open>Errors\<close>

text \<open>
  Every \<^verbatim>\<open>raise\<close> and failed \<^verbatim>\<open>assert\<close> of \<^verbatim>\<open>paxml/train.py\<close> and
  \<^verbatim>\<open>paxml/executors.py\<close> that the development reaches is a constructor here.
  \<^item> \<open>UnableToParseDuration\<close>: \<^verbatim>\<open>ValueError('Unable to parse string duration ...')\<close>;
  \<^item> \<open>TimedeltaOverflow\<close>: the \<^verbatim>\<open>OverflowError\<close> of \<^verbatim>\<open>datetime.timedelta\<close>;
  \<^item> \<open>FlaxNotSupportedForPjit\<close>: \<^verbatim>\<open>ValueError('FLAX checkpointing not supported for pjit models.')\<close>;
  \<^item> \<open>EmaNotEnabled\<close>: \<^verbatim>\<open>ValueError('decode_use_ema_states is requested but the learner
    does not seem to have ema enabled')\<close>;
  \<^item> \<open>DuplicateName\<close>: the error of \<^verbatim>\<open>trainer_lib.check_unique_names\<close>;
  \<^item> \<open>StepMismatch\<close>: the failed assertion \<^verbatim>\<open>checkpointer.step_to_restore == initial_global_step\<close>;
  \<^item> \<open>NumParamsNotDivisible\<close>: the failed assertion
    \<^verbatim>\<open>total_num_params % jax.local_device_count() == 0\<close>;
  \<^item> \<open>ZeroDivision\<close>: Python's \<^verbatim>\<open>ZeroDivisionError\<close>.
\<close>

datatype error =
    UnableToParseDuration
  | TimedeltaOverflow
  | FlaxNotSupportedForPjit
  | EmaNotEnabled
  | DuplicateName
  | StepMismatch
  | NumParamsNotDivisible
  | ZeroDivision

section \<open>The duration parser (\<^verbatim>\<open>train.py\<close>, \<^verbatim>\<open>_parse_duration\<close>)\<close>

text \<open>
  The source compiles the pattern \<^verbatim>\<open>(\d+)(\w)*\<close> and applies \<^verbatim>\<open>pattern.match\<close>, which
  anchors the match at the start of the string only. Group 1 is the longest run of leading
  digits; the starred group 2 is matched greedily against every following word character
  and, as Python reports a repeated group, holds the last character it matched, or
  \<^verbatim>\<open>None\<close> when it matched nothing. Whatever follows the word characters is not looked at.

  Strings are modelled for ASCII input, where \<^verbatim>\<open>\d\<close> is \<^verbatim>\<open>[0-9]\<close> and \<^verbatim>\<open>\w\<close> is
  \<^verbatim>\<open>[A-Za-z0-9_]\<close>.
\<close>

definition is_digit :: "char \<Rightarrow> bool" where
  "is_digit c = (c \<in> set ''0123456789'')"

definition is_word :: "char \<Rightarrow> bool" where
  "is_word c =
     (c \<in> set ''abcdefghijklmnopqrstuvwxyzABCDEFGHIJKLMNOPQRSTUVWXYZ0123456789_'')"

text \<open>\<^verbatim>\<open>pattern.match(duration_str)\<close>: \<open>None\<close> when the string does not start with a
  digit, otherwise the two groups.\<close>

definition pattern_match :: "string \<Rightarrow> (string \<times> char option) option" where
  "pattern_match s =
     (let group1 = takeWhile is_digit s;
          ws = takeWhile is_word (dropWhile is_digit s)
      in if group1 = [] then None
         else Some (group1, if ws = [] then None else Some (last ws)))"

text \<open>\<^verbatim>\<open>int(match.group(1))\<close> on a non-empty string of ASCII digits (without the limit on
  the number of digits that recent Python versions put on the conversion).\<close>

definition digit_value :: "char \<Rightarrow> int" where
  "digit_value c = int (of_char c) - 48"

definition int_of_digits :: "string \<Rightarrow> int" where
  "int_of_digits ds = foldl (\<lambda>acc c. 10 * acc + digit_value c) 0 ds"

text \<open>\<^verbatim>\<open>datetime.timedelta(seconds=n)\<close> for \<open>n \<ge> 0\<close>: the duration is kept as its number of
  seconds; Python refuses a duration of more than 999999999 days.\<close>

definition timedelta_seconds :: "int \<Rightarrow> error + int option" where
  "timedelta_seconds n =
     (if n div 86400 > 999999999 then Inl TimedeltaOverflow else Inr (Some n))"

text \<open>The result \<open>Inr None\<close> is Python's \<^verbatim>\<open>None\<close> (no interval), \<open>Inr (Some n)\<close> a
  \<^verbatim>\<open>timedelta\<close> of \<open>n\<close> seconds. The test \<^verbatim>\<open>len(match.groups()) != 2\<close> of the source is
  never true (the pattern has two groups) and has no branch here.\<close>

definition parse_duration :: "string option \<Rightarrow> error + int option" where
  "parse_duration duration_str =
     (case duration_str of
        None \<Rightarrow> Inr None
      | Some s \<Rightarrow>
          if s = [] then Inr None
          else
            (case pattern_match s of
               None \<Rightarrow> Inl UnableToParseDuration
             | Some (group1, group2) \<Rightarrow>
                 if group2 \<notin> {None, Some CHR ''s'', Some CHR ''m'', Some CHR ''h'', Some CHR ''d''}
                 then Inl UnableToParseDuration
                 else
                   (let int_value = int_of_digits group1 in
                    if group2 = None \<or> group2 = Some CHR ''s'' then timedelta_seconds int_value
                    else if group2 = Some CHR ''m'' then timedelta_seconds (int_value * 60)
                    else if group2 = Some CHR ''h'' then timedelta_seconds (int_value * 3600)
                    else if group2 = Some CHR ''d'' then timedelta_seconds (int_value * 86400)
                    else Inl UnableToParseDuration)))"

section \<open>The training checkpointers (\<^verbatim>\<open>train.py\<close>)\<close>

text \<open>
  \<^verbatim>\<open>checkpoint_managers.OrbaxCheckpointManager\<close> is not among the sources. The checkpointers
  query it (\<^verbatim>\<open>latest_step\<close>, \<^verbatim>\<open>should_save\<close>, \<^verbatim>\<open>restore\<close>) and command it
  (\<^verbatim>\<open>save\<close>, \<^verbatim>\<open>check_for_errors\<close>, \<^verbatim>\<open>wait_until_finished\<close>). The answers to the queries
  are parameters of the model (the record \<open>manager\<close>); the commands a method issues are its
  result, in the order it issues them. A checkpoint is written only by \<^verbatim>\<open>save\<close>, so a
  method that issues no \<open>MgrSave\<close> leaves the checkpoint directory as it was. The timing
  events the source records around saves and restores, its log lines, and the creation of
  the checkpoint directory before a restore from TensorStore are left out.
\<close>

datatype checkpoint_type = FLAX | GDA | PERSISTENCE | OtherCheckpointType

datatype shapes = PaddedGlobalShapes | UnpaddedGlobalShapes

datatype restore_kwargs = NoKwargs | EmptyKwargs | SpecsMesh | StateSpecsGlobalMesh

record 's manager =
  latest_step :: "int option"
  should_save :: "int \<Rightarrow> bool"
  restore :: "int \<Rightarrow> shapes \<Rightarrow> restore_kwargs \<Rightarrow> 's option"

datatype 's manager_call =
    MgrSave int 's bool
  | MgrCheckForErrors
  | MgrWaitUntilFinished

text \<open>The fields of a checkpointer object that its methods read.\<close>

record checkpointer =
  checkpoint_type_of :: checkpoint_type
  enable_checkpoint_saving :: bool

text \<open>
  The library functions the checkpointers call (\<^verbatim>\<open>py_utils\<close>, \<^verbatim>\<open>trainer_lib\<close>,
  \<^verbatim>\<open>tasks_lib\<close>, \<^verbatim>\<open>jax\<close>), none of them among the sources, are parameters as well.
  \<open>first_replica\<close> is \<^verbatim>\<open>jax.tree_map(lambda x: x[0], ...)\<close>, and
  \<open>convert_host_local_array_to_global_array\<close> its \<^verbatim>\<open>tree_map\<close> over the state; the two
  initialisers stand for their result on the task, the key and the metadata of the call.
\<close>

record ('s, 'v) libraries =
  pmap_use_tensorstore :: bool
  convert_host_local_array_to_global_array :: "'s \<Rightarrow> 's"
  first_replica :: "'s \<Rightarrow> 's"
  replicate_model_state :: "'s \<Rightarrow> 's"
  initialize_model_state :: "'s"
  initialize_partitioned_model_states :: "'s"
  restore_pmap_from_tensorstore :: "'s option"
  mdl_vars :: "'s \<Rightarrow> 'v"
  total_num_vars :: "'v \<Rightarrow> int"
  local_device_count :: int

subsection \<open>\<^verbatim>\<open>_OrbaxPjitTrainingCheckpointer\<close> (the sharded variant)\<close>

definition OrbaxPjitTrainingCheckpointer :: "checkpoint_type \<Rightarrow> bool \<Rightarrow> error + checkpointer" where
  "OrbaxPjitTrainingCheckpointer ct enable =
     (if ct = FLAX then Inl FlaxNotSupportedForPjit
      else Inr \<lparr>checkpoint_type_of = ct, enable_checkpoint_saving = enable\<rparr>)"

definition pjit_wait_until_finished :: "'s manager_call list" where
  "pjit_wait_until_finished = [MgrWaitUntilFinished]"

definition pjit_save_with_args :: "checkpointer \<Rightarrow> int \<Rightarrow> 's \<Rightarrow> bool \<Rightarrow> 's manager_call list" where
  "pjit_save_with_args self step_i partitioned_train_state force =
     (if \<not> enable_checkpoint_saving self then []
      else [MgrSave step_i partitioned_train_state force])"

definition pjit_restore_with_args :: "checkpointer \<Rightarrow> 's manager \<Rightarrow> int \<Rightarrow> 's option" where
  "pjit_restore_with_args self mgr step_i =
     (let restore_args =
            (if checkpoint_type_of self = GDA then SpecsMesh
             else if checkpoint_type_of self = PERSISTENCE then StateSpecsGlobalMesh
             else EmptyKwargs)
      in restore mgr step_i PaddedGlobalShapes restore_args)"

definition pjit_save_final :: "checkpointer \<Rightarrow> 's manager \<Rightarrow> int \<Rightarrow> 's \<Rightarrow> 's manager_call list" where
  "pjit_save_final self mgr step_i partitioned_train_state =
     (case latest_step mgr of
        None \<Rightarrow> pjit_save_with_args self step_i partitioned_train_state True
      | Some latest \<Rightarrow>
          if latest < step_i then pjit_save_with_args self step_i partitioned_train_state True
          else [])"

definition pjit_save_if_needed :: "checkpointer \<Rightarrow> 's manager \<Rightarrow> int \<Rightarrow> 's \<Rightarrow> 's manager_call list" where
  "pjit_save_if_needed self mgr step_i partitioned_train_state =
     (if \<not> should_save mgr step_i then []
      else pjit_save_with_args self step_i partitioned_train_state False @ [MgrCheckForErrors])"

definition pjit_get_model_states ::
  "checkpointer \<Rightarrow> 's manager \<Rightarrow> ('s, 'v) libraries \<Rightarrow> 's \<times> int" where
  "pjit_get_model_states self mgr lib =
     (let restored =
            (case latest_step mgr of
               None \<Rightarrow> None
             | Some step \<Rightarrow> pjit_restore_with_args self mgr step);
          partitioned_train_state =
            (case restored of
               None \<Rightarrow> initialize_partitioned_model_states lib
             | Some st \<Rightarrow> st);
          total_num_params = total_num_vars lib (mdl_vars lib partitioned_train_state)
      in (partitioned_train_state, total_num_params))"

subsection \<open>\<^verbatim>\<open>_OrbaxPmapTrainingCheckpointer\<close> (the replicated variant)\<close>

definition pmap_wait_until_finished :: "'s manager_call list" where
  "pmap_wait_until_finished = [MgrWaitUntilFinished]"

definition pmap_save_with_args :: "int \<Rightarrow> 's \<Rightarrow> bool \<Rightarrow> 's manager_call list" where
  "pmap_save_with_args step_i train_state force = [MgrSave step_i train_state force]"

definition pmap_save ::
  "checkpointer \<Rightarrow> ('s, 'v) libraries \<Rightarrow> int \<Rightarrow> 's \<Rightarrow> bool \<Rightarrow> 's manager_call list" where
  "pmap_save self lib step_i partitioned_train_state is_final =
     (if \<not> enable_checkpoint_saving self then []
      else if pmap_use_tensorstore lib
      then pmap_save_with_args step_i
             (convert_host_local_array_to_global_array lib partitioned_train_state) is_final
      else pmap_save_with_args step_i (first_replica lib partitioned_train_state) is_final)"

definition pmap_save_if_needed ::
  "checkpointer \<Rightarrow> 's manager \<Rightarrow> ('s, 'v) libraries \<Rightarrow> int \<Rightarrow> 's \<Rightarrow> 's manager_call list" where
  "pmap_save_if_needed self mgr lib step_i partitioned_train_state =
     (if \<not> should_save mgr step_i then []
      else pmap_save self lib step_i partitioned_train_state False @ [MgrCheckForErrors])"

definition pmap_save_final ::
  "checkpointer \<Rightarrow> 's manager \<Rightarrow> ('s, 'v) libraries \<Rightarrow> int \<Rightarrow> 's \<Rightarrow> 's manager_call list" where
  "pmap_save_final self mgr lib step_i partitioned_train_state =
     (case latest_step mgr of
        None \<Rightarrow> pmap_save self lib step_i partitioned_train_state True
      | Some latest \<Rightarrow>
          if latest < step_i then pmap_save self lib step_i partitioned_train_state True
          else [])"

text \<open>Python's \<^verbatim>\<open>%\<close> and \<^verbatim>\<open>//\<close> on integers are \<open>mod\<close> and \<open>div\<close> of \<open>int\<close> (both
  round towards minus infinity). \<^verbatim>\<open>jax.local_device_count()\<close> is at least one, so a zero
  count never reaches this code; the model answers it as Python integers would, with
  \<^verbatim>\<open>ZeroDivisionError\<close>, and no property below rests on that answer: each assumes a
  positive count.\<close>

definition pmap_get_model_states ::
  "checkpointer \<Rightarrow> 's manager \<Rightarrow> ('s, 'v) libraries \<Rightarrow> error + 's \<times> int" where
  "pmap_get_model_states self mgr lib =
     (let restored =
            (if pmap_use_tensorstore lib then restore_pmap_from_tensorstore lib
             else (case latest_step mgr of
                     None \<Rightarrow> None
                   | Some step \<Rightarrow> restore mgr step UnpaddedGlobalShapes NoKwargs));
          train_state =
            (case restored of
               None \<Rightarrow> initialize_model_state lib
             | Some st \<Rightarrow> st);
          partitioned_train_state = replicate_model_state lib train_state;
          total_num_params = total_num_vars lib (mdl_vars lib partitioned_train_state)
      in if local_device_count lib = 0 then Inl ZeroDivision
         else if total_num_params mod local_device_count lib \<noteq> 0 then Inl NumParamsNotDivisible
         else Inr (partitioned_train_state, total_num_params div local_device_count lib))"

subsection \<open>A concrete instance: states as the shapes of their variables\<close>

text \<open>
  For evaluating the parameter counts at a concrete model, a train state is the list of the
  shapes of its model variables. \<^verbatim>\<open>py_utils.total_num_vars\<close> sums the sizes of the
  variables (the product of each shape), and replicating a state for \<open>n\<close> local devices
  gives every variable a leading axis of length \<open>n\<close>. Sizes are unbounded integers here:
  the instance is for models whose sizes stay within the 64-bit integers the library
  counts in.
\<close>

definition shape_total_num_vars :: "int list list \<Rightarrow> int" where
  "shape_total_num_vars vars = sum_list (map prod_list vars)"

definition shape_replicate :: "int \<Rightarrow> int list list \<Rightarrow> int list list" where
  "shape_replicate n st = map (\<lambda>shape. n # shape) st"

definition shape_libraries :: "int \<Rightarrow> int list list \<Rightarrow> (int list list, int list list) libraries" where
  "shape_libraries n initial =
     \<lparr>pmap_use_tensorstore = False,
      convert_host_local_array_to_global_array = (\<lambda>st. st),
      first_replica = map tl,
      replicate_model_state = shape_replicate n,
      initialize_model_state = initial,
      initialize_partitioned_model_states = initial,
      restore_pmap_from_tensorstore = None,
      mdl_vars = (\<lambda>st. st),
      total_num_vars = shape_total_num_vars,
      local_device_count = n\<rparr>"

text \<open>A checkpoint manager over an empty directory that saves at every multiple of \<open>k\<close>.\<close>

definition empty_manager :: "int \<Rightarrow> 's manager" where
  "empty_manager k =
     \<lparr>latest_step = None,
      should_save = (\<lambda>step. step mod k = 0),
      restore = (\<lambda>step sh kw. None)\<rparr>"

text \<open>A checkpoint manager whose newest checkpoint is at step \<open>n\<close>, holding state \<open>st\<close>.\<close>

definition manager_at :: "int \<Rightarrow> int \<Rightarrow> 's \<Rightarrow> 's manager" where
  "manager_at k n st =
     \<lparr>latest_step = Some n,
      should_save = (\<lambda>step. step mod k = 0),
      restore = (\<lambda>step sh kw. if step = n then Some st else None)\<rparr>"

section \<open>The training loop (\<^verbatim>\<open>_train_and_evaluate_common\<close>)\<close>

text \<open>
  \<^verbatim>\<open>executors.py\<close> and \<^verbatim>\<open>train.py\<close> each define \<^verbatim>\<open>_train_and_evaluate_common\<close>. The two
  \<^verbatim>\<open>while True\<close> loops agree statement by statement, except that only the loop of
  \<^verbatim>\<open>executors.py\<close> has the preemption exit after \<^verbatim>\<open>save_if_needed\<close>; the loop of
  \<^verbatim>\<open>train.py\<close> is the loop below with \<open>exit_after_ondemand_checkpoint\<close> false.

  The train, eval and decode programs, the checkpointer, \<^verbatim>\<open>tasks_lib\<close> and \<^verbatim>\<open>tuning_lib\<close>
  are not among the sources. What they return is a parameter of the model (the record
  \<open>job\<close>), a function of the arguments the loop passes; the calls the loop makes on them
  are recorded, in order, as events. A callee cannot rebind the loop's variables
  \<^verbatim>\<open>step_i\<close> and \<^verbatim>\<open>partitioned_train_state\<close>: they change only where the loop assigns them.
\<close>

record train_hparams =
  num_train_steps :: int
  eval_interval_steps :: "int option"
  decode_interval_steps :: "int option"
  decode_use_ema_states :: bool

text \<open>\<^verbatim>\<open>program_output.state\<close>, \<^verbatim>\<open>program_output.aux.new_train_step\<close> (\<^verbatim>\<open>new_step_i\<close> in
  \<^verbatim>\<open>train.py\<close>) and the rest of \<^verbatim>\<open>program_output.aux\<close> (the weighted scalars, the steps per
  second and the eval-train metrics).\<close>

record ('s, 'aux) program_output =
  state :: 's
  new_train_step :: int
  aux :: 'aux

text \<open>
  \<open>early_stopping_fn\<close>, when configured, stands for the call
  \<^verbatim>\<open>tuning_lib.should_early_stop(early_stopping_fn, step_i, is_last_ckpt=..., ...)\<close>: its
  result on the step, the train outputs and the optional eval and decode metrics (the flag
  \<^verbatim>\<open>is_last_ckpt\<close> is computed from these and from the hyperparameters).
  \<open>eval_input_names\<close> holds one name per eval program and \<open>decode_input_names\<close> one per
  element of \<^verbatim>\<open>decode_input_p\<close>. \<open>train_state_step\<close> reads the step of a train state.
\<close>

record ('s, 'aux, 'em, 'dm) job =
  train_p :: train_hparams
  has_ema :: bool
  exit_after_ondemand_checkpoint :: bool
  step_to_restore :: "int option"
  train_state_step :: "'s \<Rightarrow> int"
  reached_preemption :: "int \<Rightarrow> bool"
  should_run :: "'s \<Rightarrow> int \<Rightarrow> bool"
  run :: "'s \<Rightarrow> int \<Rightarrow> ('s, 'aux) program_output"
  get_eval_train_state :: "'s \<Rightarrow> 's"
  eval_input_names :: "string list"
  run_eval_loop_over_test_splits :: "'s \<Rightarrow> int \<Rightarrow> 'em"
  decode_input_names :: "string list"
  extract_ema :: "'s \<Rightarrow> 's"
  decode_once_fn :: "'s \<Rightarrow> 'dm"
  early_stopping_fn :: "(int \<Rightarrow> 'aux \<Rightarrow> 'em option \<Rightarrow> 'dm option \<Rightarrow> bool) option"

datatype 's event =
    TrainProgramSetup int
  | EvalProgramSetup string
  | SaveIfNeeded int 's
  | WaitUntilFinished
  | ProcessExit int
  | TrainRun 's int
  | EvalRun 's int
  | DecodeRun 's
  | EarlyStopCall int bool
  | SaveFinal int 's

datatype stop_reason = Completed | EarlyStop

text \<open>How the loop is left: by \<^verbatim>\<open>break\<close> (with the loop's state and step at that moment),
  by \<^verbatim>\<open>exit(1)\<close>, or by an exception.\<close>

datatype 's outcome =
    Stopped stop_reason 's int
  | Exited int
  | Raised error

datatype 's control = Continue 's int | Done "'s outcome"

text \<open>\<^verbatim>\<open>interval and step_i % interval == 0\<close>: \<^verbatim>\<open>None\<close> and 0 are false in Python.\<close>

definition at_interval :: "int option \<Rightarrow> int \<Rightarrow> bool" where
  "at_interval interval step_i =
     (case interval of None \<Rightarrow> False | Some k \<Rightarrow> k \<noteq> 0 \<and> step_i mod k = 0)"

text \<open>The end of the loop body: \<^verbatim>\<open>if early_stopping_fn is not None: if
  tuning_lib.should_early_stop(...): break\<close>.\<close>

definition early_stop_check ::
  "('s, 'aux, 'em, 'dm) job \<Rightarrow> 's \<Rightarrow> int \<Rightarrow> 'aux \<Rightarrow> 'em option \<Rightarrow> 'dm option
   \<Rightarrow> 's event list \<times> 's control" where
  "early_stop_check job st step_i train_aux eval_metrics decode_metrics =
     (case early_stopping_fn job of
        None \<Rightarrow> ([], Continue st step_i)
      | Some should_early_stop \<Rightarrow>
          if should_early_stop step_i train_aux eval_metrics decode_metrics
          then ([EarlyStopCall step_i True], Done (Stopped EarlyStop st step_i))
          else ([EarlyStopCall step_i False], Continue st step_i))"

text \<open>The decode part of the loop body and what follows it.\<close>

definition decode_and_early_stop ::
  "('s, 'aux, 'em, 'dm) job \<Rightarrow> 's \<Rightarrow> int \<Rightarrow> 'aux \<Rightarrow> 'em option \<Rightarrow> 's event list \<times> 's control" where
  "decode_and_early_stop job st step_i train_aux eval_metrics =
     (if decode_input_names job \<noteq> [] \<and> at_interval (decode_interval_steps (train_p job)) step_i
      then
        if decode_use_ema_states (train_p job) \<and> \<not> has_ema job
        then ([], Done (Raised EmaNotEnabled))
        else
          (let decode_partitioned_train_state =
                 (if decode_use_ema_states (train_p job) then extract_ema job st else st);
               decode_metrics = decode_once_fn job decode_partitioned_train_state;
               (evs, c) = early_stop_check job st step_i train_aux eval_metrics (Some decode_metrics)
           in (DecodeRun decode_partitioned_train_state # evs, c))
      else early_stop_check job st step_i train_aux eval_metrics None)"

text \<open>The eval part of the loop body and what follows it. \<^verbatim>\<open>eval_metrics\<close> stays \<^verbatim>\<open>None\<close>
  unless the step is an eval step and there are eval programs.\<close>

definition eval_decode_and_early_stop ::
  "('s, 'aux, 'em, 'dm) job \<Rightarrow> 's \<Rightarrow> int \<Rightarrow> 'aux \<Rightarrow> 's event list \<times> 's control" where
  "eval_decode_and_early_stop job st step_i train_aux =
     (if at_interval (eval_interval_steps (train_p job)) step_i \<and> eval_input_names job \<noteq> []
      then
        (let eval_partitioned_train_state = get_eval_train_state job st;
             eval_metrics = run_eval_loop_over_test_splits job eval_partitioned_train_state step_i;
             (evs, c) = decode_and_early_stop job st step_i train_aux (Some eval_metrics)
         in (EvalRun eval_partitioned_train_state step_i # evs, c))
      else decode_and_early_stop job st step_i train_aux None)"

text \<open>One pass through the body of \<^verbatim>\<open>while True\<close>.\<close>

definition loop_body ::
  "('s, 'aux, 'em, 'dm) job \<Rightarrow> 's \<Rightarrow> int \<Rightarrow> 's event list \<times> 's control" where
  "loop_body job partitioned_train_state step_i =
     (if exit_after_ondemand_checkpoint job \<and> reached_preemption job step_i
      then ([SaveIfNeeded step_i partitioned_train_state, WaitUntilFinished, ProcessExit 1],
            Done (Exited 1))
      else if \<not> should_run job partitioned_train_state step_i
      then ([SaveIfNeeded step_i partitioned_train_state],
            Done (Stopped Completed partitioned_train_state step_i))
      else
        (let program_output = run job partitioned_train_state step_i;
             (evs, c) = eval_decode_and_early_stop job (state program_output)
                          (new_train_step program_output) (aux program_output)
         in (SaveIfNeeded step_i partitioned_train_state
               # TrainRun partitioned_train_state step_i # evs, c)))"

text \<open>The loop. It may run forever (a train program that always wants to run and no early
  stop), so it takes fuel: \<open>None\<close> is a loop that has not left after \<open>fuel\<close> passes.\<close>

fun train_loop ::
  "nat \<Rightarrow> ('s, 'aux, 'em, 'dm) job \<Rightarrow> 's \<Rightarrow> int \<Rightarrow> ('s event list \<times> 's outcome) option" where
  "train_loop 0 job st step_i = None"
| "train_loop (Suc fuel) job st step_i =
     (case loop_body job st step_i of
        (evs, Done out) \<Rightarrow> Some (evs, out)
      | (evs, Continue st' step_i') \<Rightarrow>
          (case train_loop fuel job st' step_i' of
             None \<Rightarrow> None
           | Some (evs', out) \<Rightarrow> Some (evs @ evs', out)))"

text \<open>The loop and the statements after it: once the loop is left by \<^verbatim>\<open>break\<close>,
  \<^verbatim>\<open>checkpointer.save_final(step_i, partitioned_train_state, ...)\<close> and
  \<^verbatim>\<open>checkpointer.wait_until_finished()\<close>, and the function returns. An exit or an
  exception inside the loop skips them.\<close>

definition loop_and_final_save ::
  "nat \<Rightarrow> ('s, 'aux, 'em, 'dm) job \<Rightarrow> 's \<Rightarrow> int \<Rightarrow> ('s event list \<times> 's outcome) option" where
  "loop_and_final_save fuel job st step_i =
     (case train_loop fuel job st step_i of
        None \<Rightarrow> None
      | Some (evs, Stopped reason st' step_i') \<Rightarrow>
          Some (evs @ [SaveFinal step_i' st', WaitUntilFinished], Stopped reason st' step_i')
      | Some (evs, Exited code) \<Rightarrow> Some (evs, Exited code)
      | Some (evs, Raised e) \<Rightarrow> Some (evs, Raised e))"

subsection \<open>What precedes the loop\<close>

text \<open>
  Modelled from the spec: \<^verbatim>\<open>trainer_lib.check_unique_names\<close> is not among the sources. The
  spec requires the declared input-source names of the programs registered together to be
  pairwise distinct and makes a duplicate name a fatal configuration error.
\<close>

definition check_unique_names :: "string list \<Rightarrow> error + unit" where
  "check_unique_names names = (if distinct names then Inr () else Inl DuplicateName)"

text \<open>\<^verbatim>\<open>if decode_input_p: ... partition_decode_once_fns(prng_key, decode_input_p)\<close>: in both
  files and on both paths of \<^verbatim>\<open>train.py\<close> the partitioning instantiates the decode inputs
  and checks their names.\<close>

definition partition_decode ::
  "('s, 'aux, 'em, 'dm) job \<Rightarrow> error + unit" where
  "partition_decode job =
     (if decode_input_names job \<noteq> [] then check_unique_names (decode_input_names job)
      else Inr ())"

text \<open>\<^verbatim>\<open>executors.py\<close>: decode partitioning, the assertion on the restored step, the setup
  of the train and eval programs, the check of the eval input names, then the loop.\<close>

definition executors_train_and_evaluate_common ::
  "nat \<Rightarrow> ('s, 'aux, 'em, 'dm) job \<Rightarrow> 's \<Rightarrow> ('s event list \<times> 's outcome) option" where
  "executors_train_and_evaluate_common fuel job partitioned_train_state =
     (case partition_decode job of
        Inl e \<Rightarrow> Some ([], Raised e)
      | Inr _ \<Rightarrow>
          (let initial_global_step = train_state_step job partitioned_train_state in
           if step_to_restore job \<noteq> None \<and> step_to_restore job \<noteq> Some initial_global_step
           then Some ([], Raised StepMismatch)
           else
             (let setups = TrainProgramSetup initial_global_step
                             # map EvalProgramSetup (eval_input_names job)
              in case check_unique_names (eval_input_names job) of
                   Inl e \<Rightarrow> Some (setups, Raised e)
                 | Inr _ \<Rightarrow>
                     (case loop_and_final_save fuel job partitioned_train_state
                             initial_global_step of
                        None \<Rightarrow> None
                      | Some (evs, out) \<Rightarrow> Some (setups @ evs, out)))))"

text \<open>\<^verbatim>\<open>train.py\<close>: decode partitioning, the setup of the train program, then the loop
  (which has no preemption exit). The eval programs are constructed by the caller.\<close>

definition train_py_train_and_evaluate_common ::
  "nat \<Rightarrow> ('s, 'aux, 'em, 'dm) job \<Rightarrow> 's \<Rightarrow> ('s event list \<times> 's outcome) option" where
  "train_py_train_and_evaluate_common fuel job partitioned_train_state =
     (case partition_decode job of
        Inl e \<Rightarrow> Some ([], Raised e)
      | Inr _ \<Rightarrow>
          (let step_i = train_state_step job partitioned_train_state
           in case loop_and_final_save fuel (job\<lparr>exit_after_ondemand_checkpoint := False\<rparr>)
                     partitioned_train_state step_i of
                None \<Rightarrow> None
              | Some (evs, out) \<Rightarrow> Some (TrainProgramSetup step_i # evs, out)))"

text \<open>\<^verbatim>\<open>train_and_evaluate_pmap\<close> constructs the eval programs and checks their input
  names before it calls the common loop.\<close>

definition train_and_evaluate_pmap ::
  "nat \<Rightarrow> ('s, 'aux, 'em, 'dm) job \<Rightarrow> 's \<Rightarrow> ('s event list \<times> 's outcome) option" where
  "train_and_evaluate_pmap fuel job partitioned_train_state =
     (case check_unique_names (eval_input_names job) of
        Inl e \<Rightarrow> Some ([], Raised e)
      | Inr _ \<Rightarrow> train_py_train_and_evaluate_common fuel job partitioned_train_state)"

text \<open>\<^verbatim>\<open>train_and_evaluate_spmd_model\<close> constructs the eval programs and calls the common
  loop; it has no check of the eval input names.\<close>

definition train_and_evaluate_spmd_model ::
  "nat \<Rightarrow> ('s, 'aux, 'em, 'dm) job \<Rightarrow> 's \<Rightarrow> ('s event list \<times> 's outcome) option" where
  "train_and_evaluate_spmd_model fuel job partitioned_train_state =
     train_py_train_and_evaluate_common fuel job partitioned_train_state"

subsection \<open>A concrete job\<close>

text \<open>For evaluating the loop: a train state that is its own step counter, a train program
  that runs while the step is below \<open>K\<close> and adds one per step, no eval, no decode, no
  early stopping, no preemption.\<close>

definition counting_job :: "int \<Rightarrow> (int, unit, unit, unit) job" where
  "counting_job K =
     \<lparr>train_p = \<lparr>num_train_steps = K, eval_interval_steps = None,
                 decode_interval_steps = None, decode_use_ema_states = False\<rparr>,
      has_ema = False,
      exit_after_ondemand_checkpoint = False,
      step_to_restore = None,
      train_state_step = (\<lambda>st. st),
      reached_preemption = (\<lambda>step_i. False),
      should_run = (\<lambda>st step_i. step_i < K),
      run = (\<lambda>st step_i. \<lparr>state = st + 1, new_train_step = step_i + 1, aux = ()\<rparr>),
      get_eval_train_state = (\<lambda>st. st),
      eval_input_names = [],
      run_eval_loop_over_test_splits = (\<lambda>st step_i. ()),
      decode_input_names = [],
      extract_ema = (\<lambda>st. st),
      decode_once_fn = (\<lambda>st. ()),
      early_stopping_fn = None\<rparr>"

text \<open>Two train steps, an eval program run at every step and a decode input run at every
  second step.\<close>

definition eval_decode_job :: "(int, unit, unit, unit) job" where
  "eval_decode_job =
     (counting_job 2)
       \<lparr>train_p := \<lparr>num_train_steps = 2, eval_interval_steps = Some 1,
                    decode_interval_steps = Some 2, decode_use_ema_states = False\<rparr>,
        eval_input_names := [''test''],
        decode_input_names := [''decode'']\<rparr>"

text \<open>A job that asks for decoding with EMA states, at every multiple of \<open>interval\<close>, on
  a task without EMA.\<close>

definition ema_misconfigured_job :: "int \<Rightarrow> int \<Rightarrow> (int, unit, unit, unit) job" where
  "ema_misconfigured_job K interval =
     (counting_job K)
       \<lparr>train_p := \<lparr>num_train_steps = K, eval_interval_steps = None,
                    decode_interval_steps = Some interval, decode_use_ema_states = True\<rparr>,
        decode_input_names := [''decode'']\<rparr>"


text \<open>A job whose early-stopping policy answers true whenever it is called.\<close>

definition early_stopping_job :: "int \<Rightarrow> (int, unit, unit, unit) job" where
  "early_stopping_job K =
     (counting_job K)
       \<lparr>early_stopping_fn := Some (\<lambda>step_i train_aux eval_metrics decode_metrics. True)\<rparr>"

text \<open>One train step and two eval programs whose inputs have the same name.\<close>

definition duplicate_eval_job :: "(int, unit, unit, unit) job" where
  "duplicate_eval_job =
     (counting_job 1)
       \<lparr>train_p := \<lparr>num_train_steps = 1, eval_interval_steps = Some 1,
                    decode_interval_steps = None, decode_use_ema_states = False\<rparr>,
        eval_input_names := [''test'', ''test'']\<rparr>"

subsection \<open>The loop's calls on the checkpointers of \<^verbatim>\<open>train.py\<close>\<close>

text \<open>
  The loop of \<^verbatim>\<open>train.py\<close> drives one of the two checkpointers above. The functions
  below give the commands that a call of the loop makes the checkpointer issue to its
  manager; \<open>mgr\<close> holds the manager's answers at the moment of the call.
\<close>

definition pjit_checkpointer_call ::
  "checkpointer \<Rightarrow> 's manager \<Rightarrow> 's event \<Rightarrow> 's manager_call list" where
  "pjit_checkpointer_call self mgr ev =
     (case ev of
        SaveIfNeeded step_i st \<Rightarrow> pjit_save_if_needed self mgr step_i st
      | SaveFinal step_i st \<Rightarrow> pjit_save_final self mgr step_i st
      | WaitUntilFinished \<Rightarrow> pjit_wait_until_finished
      | _ \<Rightarrow> [])"

definition pmap_checkpointer_call ::
  "checkpointer \<Rightarrow> 's manager \<Rightarrow> ('s, 'v) libraries \<Rightarrow> 's event \<Rightarrow> 's manager_call list" where
  "pmap_checkpointer_call self mgr lib ev =
     (case ev of
        SaveIfNeeded step_i st \<Rightarrow> pmap_save_if_needed self mgr lib step_i st
      | SaveFinal step_i st \<Rightarrow> pmap_save_final self mgr lib step_i st
      | WaitUntilFinished \<Rightarrow> pmap_wait_until_finished
      | _ \<Rightarrow> [])"

text \<open>Libraries for the train states of \<open>counting_job\<close>, which are single integers.\<close>

definition plain_libraries :: "(int, int) libraries" where
  "plain_libraries =
     \<lparr>pmap_use_tensorstore = False,
      convert_host_local_array_to_global_array = (\<lambda>st. st),
      first_replica = (\<lambda>st. st),
      replicate_model_state = (\<lambda>st. st),
      initialize_model_state = 0,
      initialize_partitioned_model_states = 0,
      restore_pmap_from_tensorstore = None,
      mdl_vars = (\<lambda>st. st),
      total_num_vars = (\<lambda>vars. 1),
      local_device_count = 1\<rparr>"

subsection \<open>The checkpointer of \<^verbatim>\<open>executors.py\<close> and the exit status\<close>




section \<open>Reading event traces\<close>

text \<open>The number of train-step invocations in a trace.\<close>

fun is_train_run :: "'s event \<Rightarrow> bool" where
  "is_train_run (TrainRun st step_i) = True"
| "is_train_run e = False"

definition train_runs :: "'s event list \<Rightarrow> nat" where
  "train_runs evs = length (filter is_train_run evs)"





text \<open>The answer of the first early-stopping call in a trace, if there is one.\<close>

fun first_early_stop :: "'s event list \<Rightarrow> bool option" where
  "first_early_stop [] = None"
| "first_early_stop (EarlyStopCall step_i stop # evs) = Some stop"
| "first_early_stop (e # evs) = first_early_stop evs"

text \<open>
  The ordering discipline of the spec, as a check on a trace. The check carries the state
  and step the loop holds and whether the save decision for that step has been taken. It
  fails (\<open>None\<close>) unless
  \<^item> every save decision and every final save is for exactly the state and step held;
  \<^item> a train step runs on the state and step held, after the save decision for that
    step, and the train program's output (its state and its new step) is what is held
    from then on;
  \<^item> an eval run sees the eval view of the state held, at the step held, and a decode
    run sees the state held or its EMA view; neither changes what is held.
\<close>

fun track ::
  "('s, 'aux, 'em, 'dm) job \<Rightarrow> bool \<times> 's \<times> int \<Rightarrow> 's event \<Rightarrow> (bool \<times> 's \<times> int) option" where
  "track job (decided, st, n) (SaveIfNeeded k s) =
     (if k = n \<and> s = st then Some (True, st, n) else None)"
| "track job (decided, st, n) (TrainRun s k) =
     (if decided \<and> k = n \<and> s = st
      then Some (False, state (run job st n), new_train_step (run job st n))
      else None)"
| "track job (decided, st, n) (EvalRun s k) =
     (if k = n \<and> s = get_eval_train_state job st then Some (decided, st, n) else None)"
| "track job (decided, st, n) (DecodeRun s) =
     (if s = (if decode_use_ema_states (train_p job) then extract_ema job st else st)
      then Some (decided, st, n) else None)"
| "track job (decided, st, n) (SaveFinal k s) =
     (if k = n \<and> s = st then Some (decided, st, n) else None)"
| "track job (decided, st, n) (EarlyStopCall k stop) =
     (if k = n then Some (decided, st, n) else None)"
| "track job (decided, st, n) (TrainProgramSetup k) = Some (decided, st, n)"
| "track job (decided, st, n) (EvalProgramSetup name) = Some (decided, st, n)"
| "track job (decided, st, n) WaitUntilFinished = Some (decided, st, n)"
| "track job (decided, st, n) (ProcessExit code) = Some (decided, st, n)"

fun replay ::
  "('s, 'aux, 'em, 'dm) job \<Rightarrow> bool \<times> 's \<times> int \<Rightarrow> 's event list \<Rightarrow> (bool \<times> 's \<times> int) option" where
  "replay job c [] = Some c"
| "replay job c (e # evs) =
     (case track job c e of None \<Rightarrow> None | Some c' \<Rightarrow> replay job c' evs)"

text \<open>A trace that ends inside a pass of the loop right after the pass's save decision and
  train step (and its eval run, when there is one), at a step that is a decode step.\<close>

definition raised_after_train ::
  "('s, 'aux, 'em, 'dm) job \<Rightarrow> 's event list \<Rightarrow> bool" where
  "raised_after_train job evs =
     (\<exists>before st n rest.
        evs = before @ SaveIfNeeded n st # TrainRun st n # rest
        \<and> (rest = [] \<or> rest = [EvalRun (get_eval_train_state job (state (run job st n)))
                                   (new_train_step (run job st n))])
        \<and> at_interval (decode_interval_steps (train_p job)) (new_train_step (run job st n)))"


section \<open>Properties of the duration parser\<close>

lemma parse_duration_examples:
  "parse_duration None = Inr None"
  "parse_duration (Some '''') = Inr None"
  "parse_duration (Some ''45'') = Inr (Some 45)"
  "parse_duration (Some ''45s'') = Inr (Some 45)"
  "parse_duration (Some ''10m'') = Inr (Some 600)"
  "parse_duration (Some ''3h'') = Inr (Some 10800)"
  "parse_duration (Some ''2d'') = Inr (Some 172800)"
  "parse_duration (Some ''30s'') = Inr (Some 30)"
  "parse_duration (Some ''15m'') = Inr (Some 900)"
  "parse_duration (Some ''2h'') = Inr (Some 7200)"
  "parse_duration (Some ''1d'') = Inr (Some 86400)"
  by (simp_all add: parse_duration_def pattern_match_def is_digit_def is_word_def
      int_of_digits_def digit_value_def timedelta_seconds_def)

lemma parse_duration_one_bad_suffix:
  "parse_duration (Some ''45x'') = Inl UnableToParseDuration"
  "parse_duration (Some ''abc'') = Inl UnableToParseDuration"
  "parse_duration (Some ''s'') = Inl UnableToParseDuration"
  by (simp_all add: parse_duration_def pattern_match_def is_digit_def is_word_def
      int_of_digits_def digit_value_def timedelta_seconds_def)

text \<open>
  C5. The claim: the parser maps the empty string and \<^verbatim>\<open>None\<close> to no interval, "45" and
  "45s" to 45 seconds, "10m" to 600, "3h" to 10800, "2d" to 172800, and raises a parse error
  for every input whose suffix is anything other than one of s, m, h, d (or absent).
  The listed values hold (\<open>parse_duration_examples\<close>). The rejection does not hold: only the
  last word character after the digits is inspected, and nothing after the word characters
  is, so the inputs "5xs", "1ms", "3h!" and "10 m", whose suffixes are none of s, m, h, d,
  are accepted as 5 s, 1 s, 10800 s and 10 s.
\<close>

theorem parse_duration_accepts_other_suffixes:
  "parse_duration (Some ''5xs'') = Inr (Some 5)
   \<and> parse_duration (Some ''1ms'') = Inr (Some 1)
   \<and> parse_duration (Some ''3h!'') = Inr (Some 10800)
   \<and> parse_duration (Some ''10 m'') = Inr (Some 10)"
  by (simp add: parse_duration_def pattern_match_def is_digit_def is_word_def
      int_of_digits_def digit_value_def timedelta_seconds_def)

section \<open>Properties of the checkpointers\<close>

lemma pjit_save_with_args_disabled:
  "\<not> enable_checkpoint_saving self \<Longrightarrow> pjit_save_with_args self n st force = []"
  by (simp add: pjit_save_with_args_def)

lemma pmap_save_disabled:
  "\<not> enable_checkpoint_saving self \<Longrightarrow> pmap_save self lib n st is_final = []"
  by (simp add: pmap_save_def)

lemma pmap_save_enabled:
  "enable_checkpoint_saving self \<Longrightarrow>
   pmap_save self lib n st is_final =
     [MgrSave n (if pmap_use_tensorstore lib
                 then convert_host_local_array_to_global_array lib st
                 else first_replica lib st) is_final]"
  by (simp add: pmap_save_def pmap_save_with_args_def)

text \<open>
  C4, as the claim states it, fails: with \<^verbatim>\<open>enable_checkpoint_saving\<close> false and an empty
  checkpoint directory (no checkpoint exists yet), \<^verbatim>\<open>save_final\<close> of either variant issues
  no save.
\<close>

theorem save_final_disabled_counterexample:
  "latest_step (empty_manager 1 :: nat manager) = None
   \<and> pjit_save_final \<lparr>checkpoint_type_of = GDA, enable_checkpoint_saving = False\<rparr>
        (empty_manager 1) 5 (7::nat) = []
   \<and> pmap_save_final \<lparr>checkpoint_type_of = GDA, enable_checkpoint_saving = False\<rparr>
        (empty_manager 1) (shape_libraries 2 [[3, 4]]) 5 [[2, 3, 4]] = []"
  by (simp add: empty_manager_def pjit_save_final_def pjit_save_with_args_def
      pmap_save_final_def pmap_save_def)

text \<open>
  C4, amended: \<^verbatim>\<open>save_final(N, state)\<close> issues exactly one save, at step \<open>N\<close> and forced, if
  and only if checkpoint saving is enabled and either no checkpoint exists or the newest
  one is at a step strictly less than \<open>N\<close>; otherwise it issues nothing. This holds for the
  sharded (pjit) and the replicated (pmap) variant; the replicated variant saves the state
  converted to a global array or reduced to its first replica.
\<close>

theorem save_final_saves_iff:
  "pjit_save_final self mgr n st =
     (if enable_checkpoint_saving self
         \<and> (latest_step mgr = None \<or> (\<exists>latest. latest_step mgr = Some latest \<and> latest < n))
      then [MgrSave n st True] else [])
   \<and> pmap_save_final self mgr lib n st =
     (if enable_checkpoint_saving self
         \<and> (latest_step mgr = None \<or> (\<exists>latest. latest_step mgr = Some latest \<and> latest < n))
      then [MgrSave n (if pmap_use_tensorstore lib
                       then convert_host_local_array_to_global_array lib st
                       else first_replica lib st) True]
      else [])"
proof (cases "enable_checkpoint_saving self")
  case True
  then show ?thesis
    by (cases "latest_step mgr")
      (simp_all add: pjit_save_final_def pjit_save_with_args_def pmap_save_final_def
        pmap_save_enabled)
next
  case False
  then show ?thesis
    by (cases "latest_step mgr")
      (simp_all add: pjit_save_final_def pjit_save_with_args_disabled pmap_save_final_def
        pmap_save_disabled)
qed

theorem save_final_saves_iff_witness:
  "pjit_save_final \<lparr>checkpoint_type_of = GDA, enable_checkpoint_saving = True\<rparr>
     (manager_at 10 20 [[3, 4 :: int]]) 25 [[5, 6]] = [MgrSave 25 [[5, 6]] True]
   \<and> pjit_save_final \<lparr>checkpoint_type_of = GDA, enable_checkpoint_saving = True\<rparr>
     (manager_at 10 20 [[3, 4 :: int]]) 20 [[5, 6]] = []
   \<and> pmap_save_final \<lparr>checkpoint_type_of = GDA, enable_checkpoint_saving = True\<rparr>
     (empty_manager 10) (shape_libraries 2 [[3, 4]]) 25 [[2, 3, 4]] = [MgrSave 25 [[3, 4]] True]"
  using save_final_saves_iff
    [of "\<lparr>checkpoint_type_of = GDA, enable_checkpoint_saving = True\<rparr>"
        "manager_at 10 20 [[3, 4]]" 25 "[[5, 6]]" "shape_libraries 2 [[3, 4]]"]
    save_final_saves_iff
    [of "\<lparr>checkpoint_type_of = GDA, enable_checkpoint_saving = True\<rparr>"
        "manager_at 10 20 [[3, 4]]" 20 "[[5, 6]]" "shape_libraries 2 [[3, 4]]"]
    save_final_saves_iff
    [of "\<lparr>checkpoint_type_of = GDA, enable_checkpoint_saving = True\<rparr>"
        "empty_manager 10" 25 "[[2, 3, 4]]" "shape_libraries 2 [[3, 4]]"]
  by (simp add: manager_at_def empty_manager_def shape_libraries_def)

text \<open>
  C9. With \<^verbatim>\<open>enable_checkpoint_saving\<close> false, \<^verbatim>\<open>save_if_needed\<close> and \<^verbatim>\<open>save_final\<close> of
  both variants issue no save to the checkpoint manager (\<^verbatim>\<open>save_if_needed\<close> still polls
  \<^verbatim>\<open>check_for_errors\<close> when the step is a save step, which writes nothing), so the checkpoint
  directory is left unchanged; and \<^verbatim>\<open>get_model_states\<close> of both variants returns what it
  returns with saving enabled.
\<close>

theorem saving_disabled_no_save:
  assumes "\<not> enable_checkpoint_saving self"
  shows "pjit_save_if_needed self mgr n st = (if should_save mgr n then [MgrCheckForErrors] else [])
    \<and> pjit_save_final self mgr n st = []
    \<and> pmap_save_if_needed self mgr lib n st = (if should_save mgr n then [MgrCheckForErrors] else [])
    \<and> pmap_save_final self mgr lib n st = []
    \<and> pjit_get_model_states self mgr lib =
        pjit_get_model_states (self\<lparr>enable_checkpoint_saving := True\<rparr>) mgr lib
    \<and> pmap_get_model_states self mgr lib =
        pmap_get_model_states (self\<lparr>enable_checkpoint_saving := True\<rparr>) mgr lib"
proof -
  have "pjit_save_if_needed self mgr n st = (if should_save mgr n then [MgrCheckForErrors] else [])"
    using assms by (simp add: pjit_save_if_needed_def pjit_save_with_args_disabled)
  moreover have "pjit_save_final self mgr n st = []"
    using assms by (simp add: pjit_save_final_def pjit_save_with_args_disabled split: option.split)
  moreover have "pmap_save_if_needed self mgr lib n st =
      (if should_save mgr n then [MgrCheckForErrors] else [])"
    using assms by (simp add: pmap_save_if_needed_def pmap_save_disabled)
  moreover have "pmap_save_final self mgr lib n st = []"
    using assms by (simp add: pmap_save_final_def pmap_save_disabled split: option.split)
  moreover have "pjit_get_model_states self mgr lib =
        pjit_get_model_states (self\<lparr>enable_checkpoint_saving := True\<rparr>) mgr lib"
    by (simp add: pjit_get_model_states_def pjit_restore_with_args_def split: option.split)
  moreover have "pmap_get_model_states self mgr lib =
        pmap_get_model_states (self\<lparr>enable_checkpoint_saving := True\<rparr>) mgr lib"
    by (simp add: pmap_get_model_states_def)
  ultimately show ?thesis by blast
qed

theorem saving_disabled_no_save_witness:
  "\<not> enable_checkpoint_saving \<lparr>checkpoint_type_of = GDA, enable_checkpoint_saving = False\<rparr>
   \<and> pjit_save_if_needed \<lparr>checkpoint_type_of = GDA, enable_checkpoint_saving = False\<rparr>
        (manager_at 10 20 [[3, 4 :: int]]) 30 [[5, 6]] = [MgrCheckForErrors]
   \<and> pjit_save_final \<lparr>checkpoint_type_of = GDA, enable_checkpoint_saving = False\<rparr>
        (manager_at 10 20 [[3, 4 :: int]]) 30 [[5, 6]] = []
   \<and> pmap_save_if_needed \<lparr>checkpoint_type_of = GDA, enable_checkpoint_saving = False\<rparr>
        (manager_at 10 20 [[3, 4 :: int]]) (shape_libraries 2 [[1]]) 30 [[5, 6]] = [MgrCheckForErrors]
   \<and> pmap_save_final \<lparr>checkpoint_type_of = GDA, enable_checkpoint_saving = False\<rparr>
        (manager_at 10 20 [[3, 4 :: int]]) (shape_libraries 2 [[1]]) 30 [[5, 6]] = []
   \<and> pjit_get_model_states \<lparr>checkpoint_type_of = GDA, enable_checkpoint_saving = False\<rparr>
        (manager_at 10 20 [[3, 4 :: int]]) (shape_libraries 2 [[1]]) = ([[3, 4]], 12)
   \<and> pjit_get_model_states \<lparr>checkpoint_type_of = GDA, enable_checkpoint_saving = True\<rparr>
        (manager_at 10 20 [[3, 4 :: int]]) (shape_libraries 2 [[1]]) = ([[3, 4]], 12)
   \<and> pmap_get_model_states \<lparr>checkpoint_type_of = GDA, enable_checkpoint_saving = False\<rparr>
        (manager_at 10 20 [[3, 4 :: int]]) (shape_libraries 2 [[1]]) = Inr ([[2, 3, 4]], 12)
   \<and> pmap_get_model_states \<lparr>checkpoint_type_of = GDA, enable_checkpoint_saving = True\<rparr>
        (manager_at 10 20 [[3, 4 :: int]]) (shape_libraries 2 [[1]]) = Inr ([[2, 3, 4]], 12)"
proof -
  let ?self = "\<lparr>checkpoint_type_of = GDA, enable_checkpoint_saving = False\<rparr>"
  let ?mgr = "manager_at 10 20 [[3, 4 :: int]]"
  have off: "\<not> enable_checkpoint_saving ?self" by simp
  have on: "?self\<lparr>enable_checkpoint_saving := True\<rparr>
            = \<lparr>checkpoint_type_of = GDA, enable_checkpoint_saving = True\<rparr>" by simp
  have states: "pjit_get_model_states \<lparr>checkpoint_type_of = GDA, enable_checkpoint_saving = True\<rparr>
        ?mgr (shape_libraries 2 [[1]]) = ([[3, 4]], 12)"
    by (simp add: pjit_get_model_states_def pjit_restore_with_args_def manager_at_def
        shape_libraries_def shape_total_num_vars_def)
  have pstates: "pmap_get_model_states \<lparr>checkpoint_type_of = GDA, enable_checkpoint_saving = True\<rparr>
        ?mgr (shape_libraries 2 [[1]]) = Inr ([[2, 3, 4]], 12)"
    by (simp add: pmap_get_model_states_def manager_at_def shape_libraries_def
        shape_replicate_def shape_total_num_vars_def)
  show ?thesis
    using off saving_disabled_no_save [OF off, of ?mgr 30 "[[5, 6]]" "shape_libraries 2 [[1]]"]
      states pstates
    unfolding on
    by (simp add: manager_at_def)
qed

text \<open>
  C10, as the claim states it, fails in its conclusion: for one and the same model (a single
  variable of shape 3 x 4, two local devices, nothing to restore) the replicated variant
  reports 24 div 2 = 12 parameters and the sharded variant reports 12.
\<close>

theorem param_count_same_counterexample:
  "pmap_get_model_states \<lparr>checkpoint_type_of = GDA, enable_checkpoint_saving = True\<rparr>
     (empty_manager 1) (shape_libraries 2 [[3, 4]]) = Inr ([[2, 3, 4]], 12)
   \<and> pjit_get_model_states \<lparr>checkpoint_type_of = GDA, enable_checkpoint_saving = True\<rparr>
     (empty_manager 1) (shape_libraries 2 [[3, 4]]) = ([[3, 4]], 12)"
  by (simp add: pmap_get_model_states_def pjit_get_model_states_def empty_manager_def
      shape_libraries_def shape_replicate_def shape_total_num_vars_def)

lemma shape_replicate_total:
  "shape_total_num_vars (shape_replicate d st) = d * shape_total_num_vars st"
  by (induction st) (simp_all add: shape_total_num_vars_def shape_replicate_def algebra_simps)

lemma pmap_get_model_states_asserts:
  assumes "0 < local_device_count lib" and "pmap_get_model_states self mgr lib = Inl e"
  shows "e = NumParamsNotDivisible"
  using assms by (auto simp: pmap_get_model_states_def Let_def split: if_splits)

text \<open>
  C10, amended: the replicated (pmap) variant returns the total variable count of the
  replicated state divided by the local device count, and only when the division is exact;
  the sharded (pjit) variant returns the undivided total of its state. The two reported
  values are equal exactly when the total of the replicated state is the device count times
  the total of the sharded state. That is the case for an identical model: with states as
  the shapes of their variables, for every positive device count, every initial model and
  every checkpoint manager that restores the same state for both variants, the replicated
  variant holds the replica of the model the sharded variant holds, its assertion passes,
  and both report the total of that model.
\<close>

theorem param_count_variants:
  "(0 < local_device_count lib \<and> pmap_get_model_states self mgr lib = Inr (p, n)
      \<and> pjit_get_model_states self' mgr' lib' = (q, m) \<longrightarrow>
      total_num_vars lib (mdl_vars lib p) mod local_device_count lib = 0
      \<and> n = total_num_vars lib (mdl_vars lib p) div local_device_count lib
      \<and> m = total_num_vars lib' (mdl_vars lib' q)
      \<and> (if total_num_vars lib (mdl_vars lib p)
             = local_device_count lib * total_num_vars lib' (mdl_vars lib' q)
          then n = m else n \<noteq> m))
   \<and> (0 < d \<and> (\<forall>step sh kw sh' kw'. restore smgr step sh kw = restore smgr step sh' kw') \<longrightarrow>
      (\<exists>model.
         pmap_get_model_states self smgr (shape_libraries d init)
           = Inr (shape_replicate d model, shape_total_num_vars model)
         \<and> pjit_get_model_states self' smgr (shape_libraries d init)
           = (model, shape_total_num_vars model)))"
proof (intro conjI impI)
  assume a: "0 < local_device_count lib \<and> pmap_get_model_states self mgr lib = Inr (p, n)
      \<and> pjit_get_model_states self' mgr' lib' = (q, m)"
  let ?total = "total_num_vars lib (mdl_vars lib p)"
  let ?d = "local_device_count lib"
  from a have d: "?d \<noteq> 0" by simp
  from a have dvd: "?total mod ?d = 0" and n: "n = ?total div ?d"
    by (auto simp: pmap_get_model_states_def Let_def split: if_splits)
  from a have m: "m = total_num_vars lib' (mdl_vars lib' q)"
    by (auto simp: pjit_get_model_states_def Let_def)
  have "?total = ?d * m \<longleftrightarrow> n = m"
  proof
    assume "?total = ?d * m"
    then show "n = m" using d n by simp
  next
    assume "n = m"
    then have "m = ?total div ?d" using n by simp
    moreover have "?d * (?total div ?d) = ?total" using dvd by (simp add: mod_0_imp_dvd)
    ultimately show "?total = ?d * m" by simp
  qed
  with m have iff: "(if ?total = ?d * total_num_vars lib' (mdl_vars lib' q) then n = m else n \<noteq> m)"
    by simp
  from dvd show "?total mod ?d = 0" .
  from n show "n = ?total div ?d" .
  from m show "m = total_num_vars lib' (mdl_vars lib' q)" .
  from iff show "(if ?total = ?d * total_num_vars lib' (mdl_vars lib' q) then n = m else n \<noteq> m)" .
next
  assume b: "0 < d \<and> (\<forall>step sh kw sh' kw'. restore smgr step sh kw = restore smgr step sh' kw')"
  define model where "model =
    (case (case latest_step smgr of None \<Rightarrow> None
           | Some step \<Rightarrow> restore smgr step UnpaddedGlobalShapes NoKwargs) of
       None \<Rightarrow> init | Some st \<Rightarrow> st)"
  have same: "pjit_restore_with_args self' smgr step = restore smgr step UnpaddedGlobalShapes NoKwargs"
    for step
    using b by (simp add: pjit_restore_with_args_def Let_def)
  have pj: "pjit_get_model_states self' smgr (shape_libraries d init)
           = (model, shape_total_num_vars model)"
    by (simp add: pjit_get_model_states_def same model_def shape_libraries_def
        split: option.split)
  have pm: "pmap_get_model_states self smgr (shape_libraries d init)
           = Inr (shape_replicate d model, shape_total_num_vars model)"
    using b
    by (simp add: pmap_get_model_states_def model_def shape_libraries_def
        shape_replicate_total Let_def split: option.split)
  from pj pm show "\<exists>model.
         pmap_get_model_states self smgr (shape_libraries d init)
           = Inr (shape_replicate d model, shape_total_num_vars model)
         \<and> pjit_get_model_states self' smgr (shape_libraries d init)
           = (model, shape_total_num_vars model)"
    by blast
qed


theorem param_count_variants_witness:
  "0 < local_device_count (shape_libraries 4 [[1]])
   \<and> pmap_get_model_states \<lparr>checkpoint_type_of = GDA, enable_checkpoint_saving = True\<rparr>
     (manager_at 10 20 [[5, 7]]) (shape_libraries 4 [[1]]) = Inr ([[4, 5, 7]], 35)
   \<and> pjit_get_model_states \<lparr>checkpoint_type_of = GDA, enable_checkpoint_saving = True\<rparr>
     (manager_at 10 20 [[5, 7]]) (shape_libraries 4 [[1]]) = ([[5, 7]], 35)
   \<and> shape_total_num_vars [[4, 5, 7]] mod 4 = 0
   \<and> (35::int) = shape_total_num_vars [[4, 5, 7]] div 4
   \<and> (35::int) = shape_total_num_vars [[5, 7]]
   \<and> (\<forall>step sh kw sh' kw'.
         restore (manager_at 10 20 [[5, 7 :: int]]) step sh kw
           = restore (manager_at 10 20 [[5, 7]]) step sh' kw')
   \<and> (\<exists>model.
         pmap_get_model_states \<lparr>checkpoint_type_of = GDA, enable_checkpoint_saving = True\<rparr>
           (manager_at 10 20 [[5, 7]]) (shape_libraries 4 [[1]])
           = Inr (shape_replicate 4 model, shape_total_num_vars model)
         \<and> pjit_get_model_states \<lparr>checkpoint_type_of = GDA, enable_checkpoint_saving = True\<rparr>
           (manager_at 10 20 [[5, 7]]) (shape_libraries 4 [[1]])
           = (model, shape_total_num_vars model))"
proof -
  let ?self = "\<lparr>checkpoint_type_of = GDA, enable_checkpoint_saving = True\<rparr>"
  let ?mgr = "manager_at 10 20 [[5, 7 :: int]]"
  let ?lib = "shape_libraries 4 [[1]]"
  have d: "0 < local_device_count ?lib" "(0::int) < 4"
    by (simp_all add: shape_libraries_def)
  have a: "pmap_get_model_states ?self ?mgr ?lib = Inr ([[4, 5, 7]], 35)"
    by (simp add: pmap_get_model_states_def manager_at_def shape_libraries_def
        shape_replicate_def shape_total_num_vars_def)
  have b: "pjit_get_model_states ?self ?mgr ?lib = ([[5, 7]], 35)"
    by (simp add: pjit_get_model_states_def pjit_restore_with_args_def manager_at_def
        shape_libraries_def shape_total_num_vars_def)
  have r: "\<forall>step sh kw sh' kw'. restore ?mgr step sh kw = restore ?mgr step sh' kw'"
    by (simp add: manager_at_def)
  note t = param_count_variants
    [where lib = ?lib and self = ?self and mgr = ?mgr and p = "[[4, 5, 7]]" and n = 35
       and self' = ?self and mgr' = ?mgr and lib' = ?lib and q = "[[5, 7]]" and m = 35
       and d = 4 and smgr = ?mgr and init = "[[1]]"]
  from t [THEN conjunct1] d a b have
    "shape_total_num_vars [[4, 5, 7]] mod 4 = 0
     \<and> (35::int) = shape_total_num_vars [[4, 5, 7]] div 4
     \<and> (35::int) = shape_total_num_vars [[5, 7]]"
    by (simp add: shape_libraries_def)
  moreover from t [THEN conjunct2] d r have
    "\<exists>model. pmap_get_model_states ?self ?mgr ?lib
                = Inr (shape_replicate 4 model, shape_total_num_vars model)
            \<and> pjit_get_model_states ?self ?mgr ?lib = (model, shape_total_num_vars model)"
    by blast
  ultimately show ?thesis using d a b r by blast
qed

section \<open>Properties of the training loop\<close>

lemmas loop_defs = loop_and_final_save_def loop_body_def eval_decode_and_early_stop_def
  decode_and_early_stop_def early_stop_check_def at_interval_def counting_job_def

subsection \<open>The ordering of saves, train steps, eval and decode\<close>

lemma replay_append:
  "replay job c (xs @ ys) = (case replay job c xs of None \<Rightarrow> None | Some c' \<Rightarrow> replay job c' ys)"
  by (induction xs arbitrary: c) (auto split: option.splits)

lemma train_runs_append: "train_runs (xs @ ys) = train_runs xs + train_runs ys"
  by (simp add: train_runs_def)

lemma early_stop_check_cases:
  "early_stop_check job st n a em dm = ([], Continue st n)
   \<or> early_stop_check job st n a em dm = ([EarlyStopCall n False], Continue st n)
   \<or> early_stop_check job st n a em dm = ([EarlyStopCall n True], Done (Stopped EarlyStop st n))"
  by (simp add: early_stop_check_def split: option.split)

lemma early_stop_check_replay:
  "\<exists>evs c. early_stop_check job st n a em dm = (evs, c)
     \<and> replay job (d, st, n) evs = Some (d, st, n)
     \<and> train_runs evs = 0
     \<and> (c = Continue st n \<or> c = Done (Stopped EarlyStop st n))"
  using early_stop_check_cases [of job st n a em dm]
  by (auto simp: train_runs_def)

lemma decode_replay:
  "\<exists>evs c. decode_and_early_stop job st n a em = (evs, c)
     \<and> replay job (d, st, n) evs = Some (d, st, n)
     \<and> train_runs evs = 0
     \<and> (c = Continue st n \<or> c = Done (Stopped EarlyStop st n) \<or> c = Done (Raised EmaNotEnabled))"
proof -
  obtain evs c where e: "early_stop_check job st n a em None = (evs, c)"
    by (cases "early_stop_check job st n a em None")
  obtain dm where dm: "dm = Some (decode_once_fn job (if decode_use_ema_states (train_p job) then extract_ema job st else st))" by simp
  obtain evs' c' where e': "early_stop_check job st n a em dm = (evs', c')"
    by (cases "early_stop_check job st n a em dm")
  show ?thesis
    using early_stop_check_replay [of job st n a em None d]
      early_stop_check_replay [of job st n a em dm d] e e' dm
    by (auto simp: decode_and_early_stop_def Let_def train_runs_def)
qed

lemma tail_replay:
  "\<exists>evs c. eval_decode_and_early_stop job st n a = (evs, c)
     \<and> replay job (d, st, n) evs = Some (d, st, n)
     \<and> train_runs evs = 0
     \<and> (c = Continue st n \<or> c = Done (Stopped EarlyStop st n) \<or> c = Done (Raised EmaNotEnabled))"
proof -
  obtain evs c where e: "decode_and_early_stop job st n a None = (evs, c)"
    by (cases "decode_and_early_stop job st n a None")
  obtain em where em: "em = Some (run_eval_loop_over_test_splits job (get_eval_train_state job st) n)" by simp
  obtain evs' c' where e': "decode_and_early_stop job st n a em = (evs', c')"
    by (cases "decode_and_early_stop job st n a em")
  show ?thesis
    using decode_replay [of job st n a None d] decode_replay [of job st n a em d] e e' em
    by (auto simp: eval_decode_and_early_stop_def Let_def train_runs_def)
qed

lemma loop_body_replay:
  "\<exists>evs c d'. loop_body job st n = (evs, c)
     \<and> replay job (d, st, n) evs = Some (d', 
          (if train_runs evs = 0 then st else state (run job st n)),
          (if train_runs evs = 0 then n else new_train_step (run job st n)))
     \<and> train_runs evs \<le> 1
     \<and> (case c of
          Continue st' n' \<Rightarrow> train_runs evs = 1 \<and> st' = state (run job st n) \<and> n' = new_train_step (run job st n)
        | Done (Stopped Completed st' n') \<Rightarrow> train_runs evs = 0 \<and> st' = st \<and> n' = n
        | Done (Stopped EarlyStop st' n') \<Rightarrow> train_runs evs = 1 \<and> st' = state (run job st n) \<and> n' = new_train_step (run job st n)
        | Done (Exited code) \<Rightarrow> train_runs evs = 0 \<and> code = 1
        | Done (Raised e) \<Rightarrow> train_runs evs = 1 \<and> e = EmaNotEnabled)"
proof -
  let ?o = "run job st n"
  obtain evs c where t: "eval_decode_and_early_stop job (state ?o) (new_train_step ?o) (aux ?o) = (evs, c)"
    by (cases "eval_decode_and_early_stop job (state ?o) (new_train_step ?o) (aux ?o)")
  show ?thesis
    using tail_replay [of job "state ?o" "new_train_step ?o" "aux ?o" False] t
    by (auto simp: loop_body_def Let_def train_runs_def)
qed

lemma train_loop_replay:
  "train_loop fuel job st n = Some (evs, out) \<Longrightarrow>
   \<exists>c. replay job (d, st, n) evs = Some c
     \<and> (case out of Stopped r st' n' \<Rightarrow> snd c = (st', n') | Exited code \<Rightarrow> True | Raised e \<Rightarrow> True)"
proof (induction fuel arbitrary: st n evs out d)
  case 0
  then show ?case by simp
next
  case (Suc fuel)
  obtain bevs c d' where body: "loop_body job st n = (bevs, c)"
    and rep: "replay job (d, st, n) bevs = Some (d',
          (if train_runs bevs = 0 then st else state (run job st n)),
          (if train_runs bevs = 0 then n else new_train_step (run job st n)))"
    and shape: "(case c of
          Continue st' n' \<Rightarrow> train_runs bevs = 1 \<and> st' = state (run job st n) \<and> n' = new_train_step (run job st n)
        | Done (Stopped Completed st' n') \<Rightarrow> train_runs bevs = 0 \<and> st' = st \<and> n' = n
        | Done (Stopped EarlyStop st' n') \<Rightarrow> train_runs bevs = 1 \<and> st' = state (run job st n) \<and> n' = new_train_step (run job st n)
        | Done (Exited code) \<Rightarrow> train_runs bevs = 0 \<and> code = 1
        | Done (Raised e) \<Rightarrow> train_runs bevs = 1 \<and> e = EmaNotEnabled)"
    using loop_body_replay [of job st n d] by blast
  show ?case
  proof (cases c)
    case (Continue st1 n1)
    with Suc.prems body obtain evs' where rest: "train_loop fuel job st1 n1 = Some (evs', out)"
      and evs: "evs = bevs @ evs'"
      by (auto split: option.splits)
    from Continue shape rep have rep1: "replay job (d, st, n) bevs = Some (d', st1, n1)"
      by simp
    from Suc.IH [OF rest, of d'] rep1 evs show ?thesis
      by (simp add: replay_append)
  next
    case (Done o1)
    with Suc.prems body have evs: "evs = bevs" and out: "out = o1" by auto
    show ?thesis
    proof (cases o1)
      case (Stopped r st1 n1)
      with Done shape rep evs out show ?thesis by (cases r) auto
    next
      case (Exited code)
      with Done shape rep evs out show ?thesis by auto
    next
      case (Raised e)
      with Done shape rep evs out show ?thesis by auto
    qed
  qed
qed

text \<open>
  C1. In every pass of the loop the save decision for the current step is taken before the
  train step runs; the state and step the loop holds change only at a train step, to the
  state and new step of the train program's output; the eval and decode runs that follow
  see that state (its eval or EMA view) and leave it and the step unchanged. So every save
  decision and the final save are for exactly the state and step the latest train step
  produced (or the initial ones), and the outcome of the loop carries them. This is the
  check \<open>replay\<close>, and every run of the loop that returns passes it.
\<close>

theorem save_before_train_state_from_train:
  assumes "loop_and_final_save fuel job st n = Some (evs, out)"
  shows "\<exists>c. replay job (False, st, n) evs = Some c
     \<and> (case out of Stopped r st' n' \<Rightarrow> snd c = (st', n') | Exited code \<Rightarrow> True | Raised e \<Rightarrow> True)"
proof -
  from assms obtain evs0 where loop: "train_loop fuel job st n = Some (evs0, out)"
    and evs: "evs = (case out of Stopped r st' n' \<Rightarrow> evs0 @ [SaveFinal n' st', WaitUntilFinished]
                      | Exited code \<Rightarrow> evs0 | Raised e \<Rightarrow> evs0)"
    by (auto simp: loop_and_final_save_def split: option.splits outcome.splits)
  from train_loop_replay [OF loop, of False] obtain c where
    c: "replay job (False, st, n) evs0 = Some c"
    and o: "(case out of Stopped r st' n' \<Rightarrow> snd c = (st', n') | Exited code \<Rightarrow> True | Raised e \<Rightarrow> True)"
    by blast
  show ?thesis
  proof (cases out)
    case (Stopped r st' n')
    with c o evs show ?thesis
      by (cases c) (simp add: replay_append)
  next
    case (Exited code)
    with c evs show ?thesis by (intro exI [of _ c]) simp
  next
    case (Raised e)
    with c evs show ?thesis by (intro exI [of _ c]) simp
  qed
qed

theorem save_before_train_state_from_train_witness:
  "loop_and_final_save 5 eval_decode_job 0 0
     = Some ([SaveIfNeeded 0 0, TrainRun 0 0, EvalRun 1 1, SaveIfNeeded 1 1, TrainRun 1 1,
              EvalRun 2 2, DecodeRun 2, SaveIfNeeded 2 2, SaveFinal 2 2, WaitUntilFinished],
             Stopped Completed 2 2)
   \<and> (\<exists>c. replay eval_decode_job (False, 0, 0)
             [SaveIfNeeded 0 0, TrainRun 0 0, EvalRun 1 1, SaveIfNeeded 1 1, TrainRun 1 1,
              EvalRun 2 2, DecodeRun 2, SaveIfNeeded 2 2, SaveFinal 2 2, WaitUntilFinished] = Some c
          \<and> snd c = (2, 2))"
proof -
  have h: "loop_and_final_save 5 eval_decode_job 0 0
     = Some ([SaveIfNeeded 0 0, TrainRun 0 0, EvalRun 1 1, SaveIfNeeded 1 1, TrainRun 1 1,
              EvalRun 2 2, DecodeRun 2, SaveIfNeeded 2 2, SaveFinal 2 2, WaitUntilFinished],
             Stopped Completed 2 2)"
    by (simp add: loop_defs eval_decode_job_def numeral_eq_Suc)
  from save_before_train_state_from_train [OF h] h show ?thesis by simp
qed

subsection \<open>Termination after the configured number of steps\<close>

text \<open>
  C2, as the claim states it, fails: with no early-stopping policy, a train program that
  runs exactly while the step is below \<open>K = 3\<close> and adds one per step, but a
  configuration that asks for EMA decoding on a task without EMA, the loop is left by an
  exception after one train step, and neither the final save nor the wait follows.
\<close>

theorem loop_cut_short_counterexample:
  "early_stopping_fn (ema_misconfigured_job 3 1) = None
   \<and> (\<forall>st n. should_run (ema_misconfigured_job 3 1) st n = (n < 3))
   \<and> (\<forall>st n. new_train_step (run (ema_misconfigured_job 3 1) st n) = n + 1)
   \<and> num_train_steps (train_p (ema_misconfigured_job 3 1)) = 3
   \<and> (\<forall>fuel. loop_and_final_save (Suc fuel) (ema_misconfigured_job 3 1) 0 0
        = Some ([SaveIfNeeded 0 0, TrainRun 0 0], Raised EmaNotEnabled))"
  by (simp add: loop_defs ema_misconfigured_job_def)

lemma tail_without_early_stop:
  assumes "early_stopping_fn job = None"
      and "decode_use_ema_states (train_p job) \<longrightarrow> has_ema job"
  shows "\<exists>evs. eval_decode_and_early_stop job st n a = (evs, Continue st n) \<and> train_runs evs = 0"
  using assms
  by (auto simp: eval_decode_and_early_stop_def decode_and_early_stop_def early_stop_check_def
      Let_def train_runs_def)

lemma train_loop_completes:
  assumes es: "early_stopping_fn job = None"
      and sr: "\<forall>st n. should_run job st n = (n < K)"
      and ns: "\<forall>st n. new_train_step (run job st n) = n + 1"
      and pe: "exit_after_ondemand_checkpoint job \<longrightarrow> (\<forall>n. \<not> reached_preemption job n)"
      and ema: "decode_use_ema_states (train_p job) \<longrightarrow> has_ema job"
  shows "nat (K - n) < fuel \<Longrightarrow>
    \<exists>evs st'. train_loop fuel job st n = Some (evs, Stopped Completed st' (max n K))
       \<and> train_runs evs = nat (K - n)"
proof (induction fuel arbitrary: st n)
  case 0
  then show ?case by simp
next
  case (Suc fuel)
  show ?case
  proof (cases "n < K")
    case False
    then have "loop_body job st n = ([SaveIfNeeded n st], Done (Stopped Completed st n))"
      using sr pe by (simp add: loop_body_def)
    with False show ?thesis by (simp add: train_runs_def max_def)
  next
    case True
    let ?o = "run job st n"
    obtain tevs where tail: "eval_decode_and_early_stop job (state ?o) (new_train_step ?o) (aux ?o)
        = (tevs, Continue (state ?o) (new_train_step ?o))" and t0: "train_runs tevs = 0"
      using tail_without_early_stop [OF es ema] by blast
    have body: "loop_body job st n
        = (SaveIfNeeded n st # TrainRun st n # tevs, Continue (state ?o) (n + 1))"
      using True sr pe ns tail by (simp add: loop_body_def)
    from True Suc.prems have "nat (K - (n + 1)) < fuel" by linarith
    from Suc.IH [OF this, of "state ?o"] obtain evs' st' where
      rest: "train_loop fuel job (state ?o) (n + 1) = Some (evs', Stopped Completed st' (max (n + 1) K))"
      and cnt: "train_runs evs' = nat (K - (n + 1))"
      by blast
    from True have mx: "max (n + 1) K = max n K" by simp
    from True have "Suc (nat (K - (n + 1))) = nat (K - n)" by linarith
    with body rest cnt t0 mx show ?thesis
      by (simp add: train_runs_def)
  qed
qed

text \<open>
  C2, amended: with \<^verbatim>\<open>num_train_steps = K\<close>, no early-stopping policy, a train program
  whose \<^verbatim>\<open>should_run\<close> is true exactly when the step is below \<open>K\<close> and whose runs return
  the step plus one, no preemption signalled when the preemption exit is configured, and
  no EMA decoding requested without EMA, the loop performs exactly \<open>K - initial_step\<close>
  train steps (none when the initial step is \<open>K\<close> or more), stops with reason
  \<open>Completed\<close>, and is followed by one final save and the wait for pending saves. Any
  fuel above \<open>K - initial_step\<close> is enough.
\<close>

theorem loop_completes_after_K_steps:
  assumes "early_stopping_fn job = None"
      and "\<forall>st n. should_run job st n = (n < num_train_steps (train_p job))"
      and "\<forall>st n. new_train_step (run job st n) = n + 1"
      and "exit_after_ondemand_checkpoint job \<longrightarrow> (\<forall>n. \<not> reached_preemption job n)"
      and "decode_use_ema_states (train_p job) \<longrightarrow> has_ema job"
      and "nat (num_train_steps (train_p job) - initial_step) < fuel"
  shows "\<exists>evs st'.
      loop_and_final_save fuel job st initial_step
        = Some (evs @ [SaveFinal (max initial_step (num_train_steps (train_p job))) st',
                       WaitUntilFinished],
                Stopped Completed st' (max initial_step (num_train_steps (train_p job))))
      \<and> train_runs evs = nat (num_train_steps (train_p job) - initial_step)"
proof -
  from train_loop_completes [OF assms(1-5) assms(6), of st]
  obtain evs st' where
    "train_loop fuel job st initial_step
       = Some (evs, Stopped Completed st' (max initial_step (num_train_steps (train_p job))))"
    and "train_runs evs = nat (num_train_steps (train_p job) - initial_step)"
    by blast
  then show ?thesis by (auto simp: loop_and_final_save_def)
qed

theorem loop_completes_after_K_steps_witness:
  "early_stopping_fn (counting_job 3) = None
   \<and> (\<forall>st n. should_run (counting_job 3) st n = (n < num_train_steps (train_p (counting_job 3))))
   \<and> (\<forall>st n. new_train_step (run (counting_job 3) st n) = n + 1)
   \<and> (\<exists>evs st'. loop_and_final_save 4 (counting_job 3) 0 0
          = Some (evs @ [SaveFinal 3 st', WaitUntilFinished], Stopped Completed st' 3)
        \<and> train_runs evs = 3)"
proof -
  have a: "early_stopping_fn (counting_job 3) = None" by (simp add: counting_job_def)
  have b: "\<forall>st n. should_run (counting_job 3) st n = (n < num_train_steps (train_p (counting_job 3)))"
    by (simp add: counting_job_def)
  have c: "\<forall>st n. new_train_step (run (counting_job 3) st n) = n + 1"
    by (simp add: counting_job_def)
  have d: "exit_after_ondemand_checkpoint (counting_job 3) \<longrightarrow> (\<forall>n. \<not> reached_preemption (counting_job 3) n)"
    by (simp add: counting_job_def)
  have e: "decode_use_ema_states (train_p (counting_job 3)) \<longrightarrow> has_ema (counting_job 3)"
    by (simp add: counting_job_def)
  have k: "num_train_steps (train_p (counting_job 3)) = 3" by (simp add: counting_job_def)
  have f: "nat (num_train_steps (train_p (counting_job 3)) - 0) < 4" by (simp add: k)
  from loop_completes_after_K_steps [OF a b c d e f, of 0] a b c show ?thesis
    by (simp add: k)
qed

subsection \<open>Early stopping\<close>

text \<open>
  The first call of the early-stopping policy in a run, if there is one, is the call of the
  first pass: a pass that continues has called the policy, when one is configured.
\<close>

lemma first_early_stop_append:
  "first_early_stop (xs @ ys)
     = (case first_early_stop xs of None \<Rightarrow> first_early_stop ys | Some b \<Rightarrow> Some b)"
  by (induction xs rule: first_early_stop.induct) simp_all

lemma loop_body_first_early_stop:
  "first_early_stop (fst (loop_body job st n))
     = (case snd (loop_body job st n) of
          Continue st' n' \<Rightarrow> (if early_stopping_fn job = None then None else Some False)
        | Done (Stopped EarlyStop st' n') \<Rightarrow> Some True
        | Done out \<Rightarrow> None)"
  by (auto simp: loop_body_def eval_decode_and_early_stop_def decode_and_early_stop_def
      early_stop_check_def Let_def split: option.splits)

lemma loop_body_no_policy:
  "early_stopping_fn job = None \<Longrightarrow> first_early_stop (fst (loop_body job st n)) = None"
  by (auto simp: loop_body_def eval_decode_and_early_stop_def decode_and_early_stop_def
      early_stop_check_def Let_def)

lemma no_policy_no_call:
  "early_stopping_fn job = None \<Longrightarrow> train_loop fuel job st n = Some (evs, out) \<Longrightarrow>
   first_early_stop evs = None"
proof (induction fuel arbitrary: st n evs)
  case 0
  then show ?case by simp
next
  case (Suc fuel)
  obtain bevs c where body: "loop_body job st n = (bevs, c)"
    by (cases "loop_body job st n")
  from loop_body_no_policy [OF Suc.prems(1), of st n] body
  have b: "first_early_stop bevs = None" by simp
  show ?case
  proof (cases c)
    case (Continue st1 n1)
    with Suc.prems body obtain evs' where rest: "train_loop fuel job st1 n1 = Some (evs', out)"
      and evs: "evs = bevs @ evs'"
      by (auto split: option.splits)
    from Suc.IH [OF Suc.prems(1) rest] b evs show ?thesis
      by (simp add: first_early_stop_append)
  next
    case (Done o1)
    with Suc.prems body have "evs = bevs" by auto
    with b show ?thesis by simp
  qed
qed

lemma first_call_is_in_first_pass:
  assumes "train_loop fuel job st n = Some (evs, out)"
  shows "first_early_stop evs = first_early_stop (fst (loop_body job st n))"
proof (cases fuel)
  case 0
  with assms show ?thesis by simp
next
  case (Suc fuel')
  obtain bevs c where body: "loop_body job st n = (bevs, c)"
    by (cases "loop_body job st n")
  show ?thesis
  proof (cases c)
    case (Continue st1 n1)
    with assms Suc body obtain evs' where rest: "train_loop fuel' job st1 n1 = Some (evs', out)"
      and evs: "evs = bevs @ evs'"
      by (auto split: option.splits)
    show ?thesis
    proof (cases "early_stopping_fn job = None")
      case True
      from no_policy_no_call [OF True rest] no_policy_no_call [OF True assms] evs body
      show ?thesis by (simp add: first_early_stop_append split: option.splits)
    next
      case False
      with loop_body_first_early_stop [of job st n] body Continue
      have "first_early_stop bevs = Some False" by simp
      with evs body show ?thesis by (simp add: first_early_stop_append)
    qed
  next
    case (Done o1)
    with assms Suc body show ?thesis by auto
  qed
qed

lemma early_stop_first_pass:
  assumes "first_early_stop (fst (loop_body job st n)) = Some True"
  shows "snd (loop_body job st n)
           = Done (Stopped EarlyStop (state (run job st n)) (new_train_step (run job st n)))
       \<and> train_runs (fst (loop_body job st n)) = 1
       \<and> early_stopping_fn job \<noteq> None"
  using assms
  by (auto simp: loop_body_def eval_decode_and_early_stop_def decode_and_early_stop_def
      early_stop_check_def Let_def train_runs_def split: if_splits option.splits)

lemma pjit_save_final_calls:
  "pjit_save_final self mgr n st =
     (if enable_checkpoint_saving self
         \<and> (latest_step mgr = None \<or> (\<exists>latest. latest_step mgr = Some latest \<and> latest < n))
      then [MgrSave n st True] else [])"
  by (cases "latest_step mgr") (simp_all add: pjit_save_final_def pjit_save_with_args_def)

lemma pmap_save_final_calls:
  "pmap_save_final self mgr lib n st =
     (if enable_checkpoint_saving self
         \<and> (latest_step mgr = None \<or> (\<exists>latest. latest_step mgr = Some latest \<and> latest < n))
      then [MgrSave n (if pmap_use_tensorstore lib
                       then convert_host_local_array_to_global_array lib st
                       else first_replica lib st) True]
      else [])"
  by (cases "latest_step mgr")
    (simp_all add: pmap_save_final_def pmap_save_def pmap_save_with_args_def)

text \<open>
  C3, as the claim states it, fails: the policy answers true at its first call and the loop
  stops after one train step and calls \<^verbatim>\<open>save_final\<close> for step 1, but with checkpoint saving
  disabled the call writes no checkpoint (in either variant), and with saving enabled and a
  checkpoint already at step 1 it writes none either.
\<close>

theorem early_stop_no_checkpoint_counterexample:
  "first_early_stop (fst (loop_body (early_stopping_job 5) 0 0)) = Some True
   \<and> loop_and_final_save 1 (early_stopping_job 5) 0 0
       = Some ([SaveIfNeeded 0 0, TrainRun 0 0, EarlyStopCall 1 True, SaveFinal 1 1,
                WaitUntilFinished], Stopped EarlyStop 1 1)
   \<and> pjit_checkpointer_call \<lparr>checkpoint_type_of = GDA, enable_checkpoint_saving = False\<rparr>
        (empty_manager 10) (SaveFinal 1 (1::int)) = []
   \<and> pmap_checkpointer_call \<lparr>checkpoint_type_of = GDA, enable_checkpoint_saving = False\<rparr>
        (empty_manager 10) plain_libraries (SaveFinal 1 1) = []
   \<and> pjit_checkpointer_call \<lparr>checkpoint_type_of = GDA, enable_checkpoint_saving = True\<rparr>
        (manager_at 10 1 1) (SaveFinal 1 (1::int)) = []"
  by (simp add: loop_defs early_stopping_job_def pjit_checkpointer_call_def
      pmap_checkpointer_call_def pjit_save_final_def pjit_save_with_args_def
      pmap_save_final_def pmap_save_def empty_manager_def manager_at_def)

text \<open>
  C3, amended: if an early-stopping policy is configured and its first call (the call of
  the first pass) answers true, the loop stops after exactly one train step, with reason
  \<open>EarlyStop\<close>, and calls \<^verbatim>\<open>save_final\<close> for the step and state that train step produced,
  then \<^verbatim>\<open>wait_until_finished\<close>. With either checkpointer of \<^verbatim>\<open>train.py\<close> these two calls
  write a forced checkpoint at that step, and then wait, if and only if checkpoint saving is
  enabled and no checkpoint exists at that step or later; otherwise they only wait. One
  unit of fuel is enough.
\<close>

theorem early_stop_final_save:
  assumes "first_early_stop (fst (loop_body job st n)) = Some True"
  shows "loop_and_final_save (Suc fuel) job st n
           = Some (fst (loop_body job st n)
                     @ [SaveFinal (new_train_step (run job st n)) (state (run job st n)),
                        WaitUntilFinished],
                   Stopped EarlyStop (state (run job st n)) (new_train_step (run job st n)))
       \<and> train_runs (fst (loop_body job st n)) = 1
       \<and> concat (map (pjit_checkpointer_call self mgr)
            [SaveFinal (new_train_step (run job st n)) (state (run job st n)), WaitUntilFinished])
         = (if enable_checkpoint_saving self
               \<and> (latest_step mgr = None
                   \<or> (\<exists>latest. latest_step mgr = Some latest
                                \<and> latest < new_train_step (run job st n)))
            then [MgrSave (new_train_step (run job st n)) (state (run job st n)) True,
                  MgrWaitUntilFinished]
            else [MgrWaitUntilFinished])
       \<and> concat (map (pmap_checkpointer_call self mgr lib)
            [SaveFinal (new_train_step (run job st n)) (state (run job st n)), WaitUntilFinished])
         = (if enable_checkpoint_saving self
               \<and> (latest_step mgr = None
                   \<or> (\<exists>latest. latest_step mgr = Some latest
                                \<and> latest < new_train_step (run job st n)))
            then [MgrSave (new_train_step (run job st n))
                    (if pmap_use_tensorstore lib
                     then convert_host_local_array_to_global_array lib (state (run job st n))
                     else first_replica lib (state (run job st n))) True,
                  MgrWaitUntilFinished]
            else [MgrWaitUntilFinished])"
proof -
  from early_stop_first_pass [OF assms]
  have "loop_and_final_save (Suc fuel) job st n
           = Some (fst (loop_body job st n)
                     @ [SaveFinal (new_train_step (run job st n)) (state (run job st n)),
                        WaitUntilFinished],
                   Stopped EarlyStop (state (run job st n)) (new_train_step (run job st n)))"
    and "train_runs (fst (loop_body job st n)) = 1"
    by (cases "loop_body job st n"; simp add: loop_and_final_save_def)+
  then show ?thesis
    by (simp add: pjit_checkpointer_call_def pmap_checkpointer_call_def
        pjit_save_final_calls pmap_save_final_calls pjit_wait_until_finished_def
        pmap_wait_until_finished_def)
qed

theorem early_stop_final_save_witness:
  "first_early_stop (fst (loop_body (early_stopping_job 5) 0 0)) = Some True
   \<and> loop_and_final_save 1 (early_stopping_job 5) 0 0
       = Some ([SaveIfNeeded 0 0, TrainRun 0 0, EarlyStopCall 1 True, SaveFinal 1 1,
                WaitUntilFinished], Stopped EarlyStop 1 1)
   \<and> train_runs [SaveIfNeeded 0 0, TrainRun 0 0, EarlyStopCall 1 True :: int event] = 1
   \<and> concat (map (pjit_checkpointer_call
                     \<lparr>checkpoint_type_of = GDA, enable_checkpoint_saving = True\<rparr>
                     (manager_at 10 0 0))
        [SaveFinal 1 (1::int), WaitUntilFinished])
      = [MgrSave 1 1 True, MgrWaitUntilFinished]
   \<and> concat (map (pmap_checkpointer_call
                     \<lparr>checkpoint_type_of = GDA, enable_checkpoint_saving = True\<rparr>
                     (manager_at 10 0 0) plain_libraries)
        [SaveFinal 1 1, WaitUntilFinished])
      = [MgrSave 1 1 True, MgrWaitUntilFinished]"
proof -
  have b: "loop_body (early_stopping_job 5) 0 0
      = ([SaveIfNeeded 0 0, TrainRun 0 0, EarlyStopCall 1 True],
         Done (Stopped EarlyStop 1 1))"
    by (simp add: loop_defs early_stopping_job_def)
  have h: "first_early_stop (fst (loop_body (early_stopping_job 5) 0 0)) = Some True"
    by (simp add: b)
  have r: "run (early_stopping_job 5) 0 0 = \<lparr>state = 1, new_train_step = 1, aux = ()\<rparr>"
    by (simp add: early_stopping_job_def counting_job_def)
  from early_stop_final_save [OF h, of 0
      "\<lparr>checkpoint_type_of = GDA, enable_checkpoint_saving = True\<rparr>"
      "manager_at 10 0 0" plain_libraries] h
  show ?thesis
    by (simp add: b r manager_at_def plain_libraries_def)
qed

subsection \<open>The EMA configuration error\<close>

lemma tail_raises:
  assumes "eval_decode_and_early_stop job st n a = (evs, Done (Raised e))"
  shows "e = EmaNotEnabled
     \<and> (evs = [] \<or> evs = [EvalRun (get_eval_train_state job st) n])
     \<and> decode_use_ema_states (train_p job) \<and> \<not> has_ema job
     \<and> decode_input_names job \<noteq> []
     \<and> at_interval (decode_interval_steps (train_p job)) n"
  using assms
  by (auto simp: eval_decode_and_early_stop_def decode_and_early_stop_def
      early_stop_check_def Let_def split: if_splits option.splits prod.splits)

lemma loop_body_raises:
  assumes "loop_body job st n = (evs, Done (Raised e))"
  shows "e = EmaNotEnabled
     \<and> (\<exists>rest. evs = SaveIfNeeded n st # TrainRun st n # rest
           \<and> (rest = [] \<or> rest = [EvalRun (get_eval_train_state job (state (run job st n)))
                                      (new_train_step (run job st n))]))
     \<and> decode_use_ema_states (train_p job) \<and> \<not> has_ema job
     \<and> decode_input_names job \<noteq> []
     \<and> at_interval (decode_interval_steps (train_p job)) (new_train_step (run job st n))"
proof -
  let ?o = "run job st n"
  obtain tevs c where t: "eval_decode_and_early_stop job (state ?o) (new_train_step ?o) (aux ?o) = (tevs, c)"
    by (cases "eval_decode_and_early_stop job (state ?o) (new_train_step ?o) (aux ?o)")
  from assms t have c: "c = Done (Raised e)" and evs: "evs = SaveIfNeeded n st # TrainRun st n # tevs"
    by (auto simp: loop_body_def Let_def split: if_splits)
  from tail_raises [OF t [unfolded c]] evs show ?thesis by auto
qed

lemma train_loop_raises:
  "train_loop fuel job st n = Some (evs, Raised e) \<Longrightarrow>
   e = EmaNotEnabled \<and> raised_after_train job evs
     \<and> decode_use_ema_states (train_p job) \<and> \<not> has_ema job \<and> decode_input_names job \<noteq> []"
proof (induction fuel arbitrary: st n evs)
  case 0
  then show ?case by simp
next
  case (Suc fuel)
  obtain bevs c where body: "loop_body job st n = (bevs, c)"
    by (cases "loop_body job st n")
  show ?case
  proof (cases c)
    case (Continue st1 n1)
    with Suc.prems body obtain evs' where rest: "train_loop fuel job st1 n1 = Some (evs', Raised e)"
      and evs: "evs = bevs @ evs'"
      by (auto split: option.splits)
    from Suc.IH [OF rest] have e: "e = EmaNotEnabled" and r: "raised_after_train job evs'"
      and cfg: "decode_use_ema_states (train_p job) \<and> \<not> has_ema job \<and> decode_input_names job \<noteq> []"
      by auto
    from r obtain before st2 n2 rest2 where
      "evs' = before @ SaveIfNeeded n2 st2 # TrainRun st2 n2 # rest2"
      "rest2 = [] \<or> rest2 = [EvalRun (get_eval_train_state job (state (run job st2 n2)))
                                   (new_train_step (run job st2 n2))]"
      "at_interval (decode_interval_steps (train_p job)) (new_train_step (run job st2 n2))"
      unfolding raised_after_train_def by blast
    then have "raised_after_train job (bevs @ evs')"
      unfolding raised_after_train_def
      by (intro exI [of _ "bevs @ before"] exI [of _ st2] exI [of _ n2] exI [of _ rest2]) simp
    with e cfg evs show ?thesis by simp
  next
    case (Done o1)
    with Suc.prems body have b: "loop_body job st n = (evs, Done (Raised e))" by auto
    from loop_body_raises [OF b] show ?thesis
      unfolding raised_after_train_def
      by (auto intro!: exI [of _ "[]"])
  qed
qed

lemma raised_after_train_prefix:
  assumes "raised_after_train job evs"
  shows "raised_after_train job (pre @ evs)"
proof -
  from assms obtain before st n rest where
    "evs = before @ SaveIfNeeded n st # TrainRun st n # rest"
    "rest = [] \<or> rest = [EvalRun (get_eval_train_state job (state (run job st n)))
                               (new_train_step (run job st n))]"
    "at_interval (decode_interval_steps (train_p job)) (new_train_step (run job st n))"
    unfolding raised_after_train_def by blast
  then show ?thesis
    unfolding raised_after_train_def
    by (intro exI [of _ "pre @ before"] exI [of _ st] exI [of _ n] exI [of _ rest]) simp
qed

lemma raised_after_train_runs:
  assumes "raised_after_train job evs"
  shows "0 < train_runs evs"
  using assms unfolding raised_after_train_def by (auto simp: train_runs_def)

lemma raised_after_train_flag:
  "raised_after_train (job\<lparr>exit_after_ondemand_checkpoint := b\<rparr>) evs = raised_after_train job evs"
  by (simp add: raised_after_train_def)

lemma loop_and_final_save_raises:
  assumes "loop_and_final_save fuel job st n = Some (evs, Raised e)"
  shows "e = EmaNotEnabled \<and> raised_after_train job evs
     \<and> decode_use_ema_states (train_p job) \<and> \<not> has_ema job \<and> decode_input_names job \<noteq> []"
proof -
  from assms have "train_loop fuel job st n = Some (evs, Raised e)"
    by (auto simp: loop_and_final_save_def split: option.splits outcome.splits)
  then show ?thesis by (rule train_loop_raises)
qed

lemma executors_raises:
  assumes "executors_train_and_evaluate_common fuel job st = Some (evs, Raised e)"
  shows "e = DuplicateName \<and> train_runs evs = 0
           \<and> (\<not> distinct (decode_input_names job) \<or> \<not> distinct (eval_input_names job))
       \<or> e = StepMismatch \<and> evs = []
       \<or> e = EmaNotEnabled \<and> raised_after_train job evs
           \<and> decode_use_ema_states (train_p job) \<and> \<not> has_ema job \<and> decode_input_names job \<noteq> []"
proof (cases "partition_decode job")
  case (Inl e')
  with assms show ?thesis
    by (auto simp: executors_train_and_evaluate_common_def partition_decode_def
        check_unique_names_def train_runs_def split: if_splits)
next
  case (Inr u)
  show ?thesis
  proof (cases "step_to_restore job \<noteq> None \<and> step_to_restore job \<noteq> Some (train_state_step job st)")
    case True
    with assms Inr show ?thesis
      by (simp add: executors_train_and_evaluate_common_def)
  next
    case False
    show ?thesis
    proof (cases "distinct (eval_input_names job)")
      case d: False
      with assms Inr False show ?thesis
        by (auto simp: executors_train_and_evaluate_common_def check_unique_names_def
            train_runs_def Let_def filter_empty_conv)
    next
      case d: True
      with assms Inr False obtain evs0 where
        run: "loop_and_final_save fuel job st (train_state_step job st) = Some (evs0, Raised e)"
        and evs: "evs = (TrainProgramSetup (train_state_step job st)
                          # map EvalProgramSetup (eval_input_names job)) @ evs0"
        by (auto simp: executors_train_and_evaluate_common_def check_unique_names_def Let_def
            split: option.splits)
      from loop_and_final_save_raises [OF run] evs raised_after_train_prefix show ?thesis
        by blast
    qed
  qed
qed

lemma train_py_raises:
  assumes "train_py_train_and_evaluate_common fuel job st = Some (evs, Raised e)"
  shows "e = DuplicateName \<and> evs = [] \<and> \<not> distinct (decode_input_names job)
       \<or> e = EmaNotEnabled \<and> raised_after_train job evs
           \<and> decode_use_ema_states (train_p job) \<and> \<not> has_ema job \<and> decode_input_names job \<noteq> []"
proof (cases "partition_decode job")
  case (Inl e')
  with assms show ?thesis
    by (auto simp: train_py_train_and_evaluate_common_def partition_decode_def
        check_unique_names_def split: if_splits)
next
  case (Inr u)
  let ?job = "job\<lparr>exit_after_ondemand_checkpoint := False\<rparr>"
  from assms Inr obtain evs0 where
    run: "loop_and_final_save fuel ?job st (train_state_step job st) = Some (evs0, Raised e)"
    and evs: "evs = [TrainProgramSetup (train_state_step job st)] @ evs0"
    by (auto simp: train_py_train_and_evaluate_common_def Let_def split: option.splits)
  from loop_and_final_save_raises [OF run] have
    "e = EmaNotEnabled" "raised_after_train job evs0"
    "decode_use_ema_states (train_p job) \<and> \<not> has_ema job \<and> decode_input_names job \<noteq> []"
    by (simp_all add: raised_after_train_flag)
  with evs raised_after_train_prefix show ?thesis by blast
qed

lemma loop_body_raises_when_decode_due:
  assumes "decode_use_ema_states (train_p job)" and "\<not> has_ema job"
      and "decode_input_names job \<noteq> []"
      and "\<not> (exit_after_ondemand_checkpoint job \<and> reached_preemption job n)"
      and "should_run job st n"
      and "at_interval (decode_interval_steps (train_p job)) (new_train_step (run job st n))"
  shows "snd (loop_body job st n) = Done (Raised EmaNotEnabled)
       \<and> train_runs (fst (loop_body job st n)) = 1"
  using assms
  by (auto simp: loop_body_def eval_decode_and_early_stop_def decode_and_early_stop_def
      Let_def train_runs_def)

text \<open>
  C6, as the claim states it, fails: with EMA decoding requested on a task without EMA and
  a decode interval of two steps, both versions of the function complete their setup and
  run two train steps before the error is raised.
\<close>

theorem ema_error_after_train_steps_counterexample:
  "executors_train_and_evaluate_common 5 (ema_misconfigured_job 3 2) 0
     = Some ([TrainProgramSetup 0, SaveIfNeeded 0 0, TrainRun 0 0, SaveIfNeeded 1 1, TrainRun 1 1],
             Raised EmaNotEnabled)
   \<and> train_py_train_and_evaluate_common 5 (ema_misconfigured_job 3 2) 0
     = Some ([TrainProgramSetup 0, SaveIfNeeded 0 0, TrainRun 0 0, SaveIfNeeded 1 1, TrainRun 1 1],
             Raised EmaNotEnabled)"
  by (simp add: executors_train_and_evaluate_common_def train_py_train_and_evaluate_common_def
      partition_decode_def check_unique_names_def loop_defs ema_misconfigured_job_def
      numeral_eq_Suc)

text \<open>
  C6, amended: requesting EMA-based decode when the task has no EMA state is a fatal error
  raised at run time inside the training loop, never at setup: whenever either version of
  the function raises it, at least one train step has run, and the trace ends in a pass
  right after its save decision and train step (and its eval run, if any), at a decode
  step. Conversely a pass that reaches its train step and whose new step is a decode step
  raises the error, after exactly that one train step and before any decode run.
\<close>

theorem ema_error_raised_inside_loop:
  "(executors_train_and_evaluate_common fuel job st = Some (evs, Raised EmaNotEnabled) \<longrightarrow>
      raised_after_train job evs \<and> 0 < train_runs evs)
   \<and> (train_py_train_and_evaluate_common fuel job st = Some (evs, Raised EmaNotEnabled) \<longrightarrow>
      raised_after_train job evs \<and> 0 < train_runs evs)
   \<and> (decode_use_ema_states (train_p job) \<and> \<not> has_ema job \<and> decode_input_names job \<noteq> []
      \<and> \<not> (exit_after_ondemand_checkpoint job \<and> reached_preemption job n)
      \<and> should_run job st' n
      \<and> at_interval (decode_interval_steps (train_p job)) (new_train_step (run job st' n)) \<longrightarrow>
      snd (loop_body job st' n) = Done (Raised EmaNotEnabled)
      \<and> train_runs (fst (loop_body job st' n)) = 1)"
proof (intro conjI impI)
  assume a: "executors_train_and_evaluate_common fuel job st = Some (evs, Raised EmaNotEnabled)"
  from executors_raises [OF a] show "raised_after_train job evs" by simp
  then show "0 < train_runs evs" by (rule raised_after_train_runs)
next
  assume a: "train_py_train_and_evaluate_common fuel job st = Some (evs, Raised EmaNotEnabled)"
  from train_py_raises [OF a] show "raised_after_train job evs" by simp
  then show "0 < train_runs evs" by (rule raised_after_train_runs)
next
  assume a: "decode_use_ema_states (train_p job) \<and> \<not> has_ema job \<and> decode_input_names job \<noteq> []
      \<and> \<not> (exit_after_ondemand_checkpoint job \<and> reached_preemption job n)
      \<and> should_run job st' n
      \<and> at_interval (decode_interval_steps (train_p job)) (new_train_step (run job st' n))"
  then show "snd (loop_body job st' n) = Done (Raised EmaNotEnabled)"
    using loop_body_raises_when_decode_due [of job n st'] by blast
  from a show "train_runs (fst (loop_body job st' n)) = 1"
    using loop_body_raises_when_decode_due [of job n st'] by blast
qed

theorem ema_error_raised_inside_loop_witness:
  "executors_train_and_evaluate_common 4 (ema_misconfigured_job 5 2) 0
     = Some ([TrainProgramSetup 0, SaveIfNeeded 0 0, TrainRun 0 0, SaveIfNeeded 1 1, TrainRun 1 1],
             Raised EmaNotEnabled)
   \<and> train_py_train_and_evaluate_common 4 (ema_misconfigured_job 5 2) 0
     = Some ([TrainProgramSetup 0, SaveIfNeeded 0 0, TrainRun 0 0, SaveIfNeeded 1 1, TrainRun 1 1],
             Raised EmaNotEnabled)
   \<and> raised_after_train (ema_misconfigured_job 5 2)
        [TrainProgramSetup 0, SaveIfNeeded 0 0, TrainRun 0 0, SaveIfNeeded 1 1, TrainRun 1 1]
   \<and> 0 < train_runs
        [TrainProgramSetup 0, SaveIfNeeded 0 0, TrainRun 0 0, SaveIfNeeded 1 1, TrainRun 1 1 :: int event]
   \<and> should_run (ema_misconfigured_job 5 2) 1 1
   \<and> at_interval (decode_interval_steps (train_p (ema_misconfigured_job 5 2)))
        (new_train_step (run (ema_misconfigured_job 5 2) 1 1))
   \<and> snd (loop_body (ema_misconfigured_job 5 2) 1 1) = Done (Raised EmaNotEnabled)
   \<and> train_runs (fst (loop_body (ema_misconfigured_job 5 2) 1 1)) = 1"
proof -
  let ?job = "ema_misconfigured_job 5 2"
  let ?evs = "[TrainProgramSetup 0, SaveIfNeeded 0 0, TrainRun 0 0, SaveIfNeeded 1 1, TrainRun 1 1 :: int event]"
  have a: "executors_train_and_evaluate_common 4 ?job 0 = Some (?evs, Raised EmaNotEnabled)"
    by (simp add: executors_train_and_evaluate_common_def partition_decode_def
        check_unique_names_def loop_defs ema_misconfigured_job_def numeral_eq_Suc)
  have b: "train_py_train_and_evaluate_common 4 ?job 0 = Some (?evs, Raised EmaNotEnabled)"
    by (simp add: train_py_train_and_evaluate_common_def partition_decode_def
        check_unique_names_def loop_defs ema_misconfigured_job_def numeral_eq_Suc)
  have c: "decode_use_ema_states (train_p ?job) \<and> \<not> has_ema ?job \<and> decode_input_names ?job \<noteq> []
      \<and> \<not> (exit_after_ondemand_checkpoint ?job \<and> reached_preemption ?job 1)
      \<and> should_run ?job 1 1
      \<and> at_interval (decode_interval_steps (train_p ?job)) (new_train_step (run ?job 1 1))"
    by (simp add: ema_misconfigured_job_def counting_job_def at_interval_def)
  from ema_error_raised_inside_loop [of 4 ?job 0 ?evs 1 1] a b c show ?thesis
    by simp
qed

subsection \<open>Unique input names\<close>

text \<open>
  With \<open>check_unique_names\<close> as the spec describes it, \<^verbatim>\<open>executors.py\<close> and
  \<^verbatim>\<open>train_and_evaluate_pmap\<close> reject duplicate decode and duplicate eval input names
  before any train step, and no path raises the error when all names are distinct.
\<close>

lemma duplicate_decode_names_rejected:
  assumes "\<not> distinct (decode_input_names job)"
  shows "executors_train_and_evaluate_common fuel job st = Some ([], Raised DuplicateName)"
    and "train_and_evaluate_spmd_model fuel job st = Some ([], Raised DuplicateName)"
    and "distinct (eval_input_names job) \<Longrightarrow>
         train_and_evaluate_pmap fuel job st = Some ([], Raised DuplicateName)"
proof -
  from assms have ne: "decode_input_names job \<noteq> []" by auto
  with assms have p: "partition_decode job = Inl DuplicateName"
    by (simp add: partition_decode_def check_unique_names_def)
  then show "executors_train_and_evaluate_common fuel job st = Some ([], Raised DuplicateName)"
    by (simp add: executors_train_and_evaluate_common_def)
  from p show "train_and_evaluate_spmd_model fuel job st = Some ([], Raised DuplicateName)"
    by (simp add: train_and_evaluate_spmd_model_def train_py_train_and_evaluate_common_def)
  from p show "distinct (eval_input_names job) \<Longrightarrow>
         train_and_evaluate_pmap fuel job st = Some ([], Raised DuplicateName)"
    by (simp add: train_and_evaluate_pmap_def train_py_train_and_evaluate_common_def
        check_unique_names_def)
qed

lemma duplicate_eval_names_rejected:
  assumes "\<not> distinct (eval_input_names job)"
  shows "train_and_evaluate_pmap fuel job st = Some ([], Raised DuplicateName)"
    and "distinct (decode_input_names job) \<Longrightarrow>
         step_to_restore job = None \<or> step_to_restore job = Some (train_state_step job st) \<Longrightarrow>
         executors_train_and_evaluate_common fuel job st
           = Some (TrainProgramSetup (train_state_step job st)
                     # map EvalProgramSetup (eval_input_names job), Raised DuplicateName)"
proof -
  from assms show "train_and_evaluate_pmap fuel job st = Some ([], Raised DuplicateName)"
    by (simp add: train_and_evaluate_pmap_def check_unique_names_def)
  assume "distinct (decode_input_names job)"
    and "step_to_restore job = None \<or> step_to_restore job = Some (train_state_step job st)"
  with assms show "executors_train_and_evaluate_common fuel job st
           = Some (TrainProgramSetup (train_state_step job st)
                     # map EvalProgramSetup (eval_input_names job), Raised DuplicateName)"
    by (auto simp: executors_train_and_evaluate_common_def partition_decode_def
        check_unique_names_def)
qed

lemma distinct_names_accepted:
  assumes "distinct (eval_input_names job)" and "distinct (decode_input_names job)"
  shows "executors_train_and_evaluate_common fuel job st \<noteq> Some (evs, Raised DuplicateName)"
    and "train_and_evaluate_pmap fuel job st \<noteq> Some (evs, Raised DuplicateName)"
    and "train_and_evaluate_spmd_model fuel job st \<noteq> Some (evs, Raised DuplicateName)"
proof -
  show "executors_train_and_evaluate_common fuel job st \<noteq> Some (evs, Raised DuplicateName)"
    using assms executors_raises [of fuel job st evs DuplicateName] by auto
  show "train_and_evaluate_spmd_model fuel job st \<noteq> Some (evs, Raised DuplicateName)"
    using assms train_py_raises [of fuel job st evs DuplicateName]
    by (auto simp: train_and_evaluate_spmd_model_def)
  show "train_and_evaluate_pmap fuel job st \<noteq> Some (evs, Raised DuplicateName)"
    using assms train_py_raises [of fuel job st evs DuplicateName]
    by (auto simp: train_and_evaluate_pmap_def check_unique_names_def)
qed

text \<open>
  C7. The claim: a duplicate input name among the eval or decode programs registered
  together is a fatal configuration error raised during setup. \<^verbatim>\<open>train_and_evaluate_spmd_model\<close>
  of \<^verbatim>\<open>train.py\<close> does not check the eval input names: for two eval programs with the same
  input name it sets up, trains and evaluates to completion, where its sibling
  \<^verbatim>\<open>train_and_evaluate_pmap\<close> and \<^verbatim>\<open>executors.py\<close> raise the error.
\<close>

theorem spmd_accepts_duplicate_eval_names:
  "\<not> distinct (eval_input_names duplicate_eval_job)
   \<and> train_and_evaluate_spmd_model 3 duplicate_eval_job 0
       = Some ([TrainProgramSetup 0, SaveIfNeeded 0 0, TrainRun 0 0, EvalRun 1 1,
                SaveIfNeeded 1 1, SaveFinal 1 1, WaitUntilFinished], Stopped Completed 1 1)
   \<and> train_and_evaluate_pmap 3 duplicate_eval_job 0 = Some ([], Raised DuplicateName)
   \<and> executors_train_and_evaluate_common 3 duplicate_eval_job 0
       = Some ([TrainProgramSetup 0, EvalProgramSetup ''test'', EvalProgramSetup ''test''],
               Raised DuplicateName)"
  by (simp add: train_and_evaluate_spmd_model_def train_and_evaluate_pmap_def
      train_py_train_and_evaluate_common_def executors_train_and_evaluate_common_def
      partition_decode_def check_unique_names_def loop_defs duplicate_eval_job_def
      numeral_eq_Suc)

subsection \<open>The preemption exit\<close>







end
